theory Spec2Isabelle
  imports Main "HOL-Library.Char_ord" "HOL-Library.List_Lexorder" "HOL-Library.Multiset"
begin

section \<open>Data model\<close>

text \<open>
  A document of the \<open>users\<close> collection. Every field may be missing from a stored
  document, which is why the components read them as \<open>x || default\<close>; a missing (or
  \<open>null\<close>) field is \<open>None\<close>. Roles are the strings the code compares with; counters are
  JavaScript numbers, modelled as integers.
\<close>

record userData =
  name :: "string option"
  email :: "string option"
  role :: "string option"
  managerId :: "string option"
  workingHours :: "string option"
  shiftPattern :: "string option"
  vacationDates :: "string list option"
  skills :: "string list option"
  srThreshold :: "int option"
  currentSrCount :: "int option"

text \<open>A cached user: the document's data together with the document id.\<close>

record user = userData +
  userId :: string

text \<open>\<open>{ id: doc.id, ...doc.data() }\<close>\<close>

definition withId :: "string \<Rightarrow> userData \<Rightarrow> user" where
  "withId i d = \<lparr>name = name d, email = email d, role = role d, managerId = managerId d,
     workingHours = workingHours d, shiftPattern = shiftPattern d,
     vacationDates = vacationDates d, skills = skills d, srThreshold = srThreshold d,
     currentSrCount = currentSrCount d, userId = i\<rparr>"

record skill =
  skillId :: string
  skillName :: "string option"

text \<open>The three shapes of \<open>x || default\<close> the components use.\<close>

definition orZero :: "int option \<Rightarrow> int" where
  "orZero x = (case x of None \<Rightarrow> 0 | Some n \<Rightarrow> n)"

definition orEmptyList :: "'a list option \<Rightarrow> 'a list" where
  "orEmptyList x = (case x of None \<Rightarrow> [] | Some xs \<Rightarrow> xs)"

definition orElse :: "string option \<Rightarrow> string \<Rightarrow> string" where
  "orElse x dflt = (case x of None \<Rightarrow> dflt | Some s \<Rightarrow> if s = [] then dflt else s)"

section \<open>The document store\<close>

text \<open>
  The store is external; the model keeps the documents of the \<open>users\<close> collection and
  the sequence of write calls the application has issued. \<open>updateDoc\<close> rejects a
  document that does not exist; \<open>setDoc\<close> creates or replaces it.
\<close>

datatype fieldUpdate = SetCurrentSrCount int | SetVacationDates "string list"

datatype writeCall = UpdateDoc string fieldUpdate | SetDoc string userData

datatype dbError = NotFound

record db =
  docs :: "string \<rightharpoonup> userData"
  writes :: "writeCall list"

fun applyUpdate :: "fieldUpdate \<Rightarrow> userData \<Rightarrow> userData" where
  "applyUpdate (SetCurrentSrCount n) d = d\<lparr>currentSrCount := Some n\<rparr>"
| "applyUpdate (SetVacationDates ds) d = d\<lparr>vacationDates := Some ds\<rparr>"

definition updateDoc :: "string \<Rightarrow> fieldUpdate \<Rightarrow> db \<Rightarrow> (dbError + unit) \<times> db" where
  "updateDoc i f d =
     (let d' = d\<lparr>writes := writes d @ [UpdateDoc i f]\<rparr>
      in case docs d i of
           None \<Rightarrow> (Inl NotFound, d')
         | Some u \<Rightarrow> (Inr (), d'\<lparr>docs := (docs d)(i \<mapsto> applyUpdate f u)\<rparr>))"

definition getDoc :: "string \<Rightarrow> db \<Rightarrow> userData option" where
  "getDoc i d = docs d i"

definition setDoc :: "string \<Rightarrow> userData \<Rightarrow> db \<Rightarrow> db" where
  "setDoc i u d = d\<lparr>docs := (docs d)(i \<mapsto> u), writes := writes d @ [SetDoc i u]\<rparr>"

section \<open>Component state\<close>

text \<open>
  The texts the components show, one constructor for each template of the source.
\<close>

datatype uiText =
    Blank
  | PleaseSelectEngineer
  | SelectedEngineerNotFound
  | ReachedThreshold "string option" int
  | SrAssigned "string option" int
  | ErrorAssigningSR dbError
  | PleaseSelectDate
  | AlreadyHaveVacation string
  | RequestVacationOn string
  | VacationRequestSubmitted
  | ErrorSubmittingVacation dbError
  | RemoveYourVacationOn string
  | VacationRemoved
  | ErrorRemovingVacationRequest dbError
  | PleaseSelectEngineerAndDate
  | EngineerAlreadyHasVacation "string option" string
  | AddVacationFor "string option" string
  | ErrorAddingVacation dbError
  | RemoveVacationFor "string option" string
  | ErrorRemovingVacation dbError

text \<open>
  The function stored by \<open>setModalAction\<close>, with what it closes over: the record of
  the render in which the handler ran, and the arguments.
\<close>

datatype action =
    ConfirmAssignSR user bool
  | ConfirmAddVacationRequest user string
  | ConfirmRemoveVacationRequest user string
  | ConfirmAddVacation user string
  | ConfirmRemoveVacation user string

text \<open>
  The \<open>useState\<close> variables of \<open>SRAssignment\<close>, \<open>ManagerVacationManagement\<close> and
  \<open>EngineerView\<close>. Each component declares a subset of them and never touches the others.
\<close>

record componentState =
  selectedEngineerId :: string
  isForceAssign :: bool
  newVacationDate :: string
  message :: uiText
  isModalOpen :: bool
  modalMessage :: uiText
  modalAction :: "action option"

section \<open>JavaScript numbers\<close>

text \<open>
  A count is a JavaScript number, a double with 53 significant bits. \<open>toDouble\<close> is
  the double nearest to an integer, ties to the even significand: up to \<open>2^53\<close> every
  integer is a double, from there to \<open>2^54\<close> every second one, and so on; \<open>quantum\<close> is
  that spacing at a given magnitude. \<open>a + b\<close> is the exact sum of the two doubles,
  rounded. (Magnitudes from \<open>2^1024\<close> on, which are \<open>Infinity\<close>, cannot come out of
  adding 1 to a double and are not modelled.)
\<close>

function quantum :: "nat \<Rightarrow> nat" where
  "quantum m = (if m < 2 ^ 53 then 1 else 2 * quantum (m div 2))"
  by pat_completeness auto
termination
  by (relation "measure (\<lambda>m. m)") auto

declare quantum.simps [simp del]

definition toDouble :: "int \<Rightarrow> int" where
  "toDouble n =
     (let m = nat \<bar>n\<bar>; q = quantum m; k = m div q; r = m mod q;
          k' = (if 2 * r < q then k else if q < 2 * r then k + 1
                else if even k then k else k + 1)
      in sgn n * int (k' * q))"

definition jsAdd :: "int \<Rightarrow> int \<Rightarrow> int" where
  "jsAdd a b = toDouble (toDouble a + toDouble b)"

section \<open>SR assignment (SRAssignment.js)\<close>

text \<open>The gate of \<open>handleAssignSR\<close>: \<open>(currentSrCount || 0) >= (srThreshold || 0)\<close>.\<close>

definition overThreshold :: "user \<Rightarrow> bool" where
  "overThreshold engineer \<longleftrightarrow> orZero (currentSrCount engineer) \<ge> orZero (srThreshold engineer)"

definition confirmAssignSR :: "user \<Rightarrow> bool \<Rightarrow> componentState \<times> db \<Rightarrow> componentState \<times> db" where
  "confirmAssignSR engineer force = (\<lambda>(st, d).
     let newSrCount = jsAdd (orZero (currentSrCount engineer)) 1;
         (r, d') = updateDoc (userId engineer) (SetCurrentSrCount newSrCount) d;
         st' = (case r of
                  Inr _ \<Rightarrow> st\<lparr>message := SrAssigned (name engineer) newSrCount,
                             selectedEngineerId := [], isForceAssign := False\<rparr>
                | Inl e \<Rightarrow> st\<lparr>message := ErrorAssigningSR e\<rparr>)
     in (st'\<lparr>isModalOpen := False\<rparr>, d'))"

definition handleAssignSR :: "user list \<Rightarrow> componentState \<times> db \<Rightarrow> componentState \<times> db" where
  "handleAssignSR myTeam = (\<lambda>(st, d).
     if selectedEngineerId st = [] then (st\<lparr>message := PleaseSelectEngineer\<rparr>, d)
     else case find (\<lambda>e. userId e = selectedEngineerId st) myTeam of
       None \<Rightarrow> (st\<lparr>message := SelectedEngineerNotFound\<rparr>, d)
     | Some engineer \<Rightarrow>
         if \<not> isForceAssign st \<and> overThreshold engineer
         then (st\<lparr>modalMessage := ReachedThreshold (name engineer) (orZero (srThreshold engineer)),
                  modalAction := Some (ConfirmAssignSR engineer True),
                  isModalOpen := True\<rparr>, d)
         else confirmAssignSR engineer (isForceAssign st) (st, d))"

text \<open>
  The Confirm button of the component's modal: \<open>if (modalAction) modalAction()\<close>. The
  modal renders nothing while it is closed. Of the actions of this component only the
  assignment is modelled, not the reset of the count.
\<close>

definition modalConfirmSR :: "componentState \<times> db \<Rightarrow> componentState \<times> db" where
  "modalConfirmSR = (\<lambda>(st, d).
     if \<not> isModalOpen st then (st, d)
     else case modalAction st of
       Some (ConfirmAssignSR engineer force) \<Rightarrow> confirmAssignSR engineer force (st, d)
     | _ \<Rightarrow> (st, d))"

section \<open>Vacation requests of the signed-in user (EngineerView.js)\<close>

text \<open>
  \<open>[...dates, d].sort()\<close> sorts strings by their code units; that is \<open>sort\<close> on the
  lexicographic order of \<open>string\<close>, and \<open>includes\<close> is list membership.
\<close>

definition handleAddVacationRequest :: "user \<Rightarrow> componentState \<Rightarrow> componentState" where
  "handleAddVacationRequest currentUser st =
     (if newVacationDate st = [] then st\<lparr>message := PleaseSelectDate\<rparr>
      else if newVacationDate st \<in> set (orEmptyList (vacationDates currentUser))
      then st\<lparr>modalMessage := AlreadyHaveVacation (newVacationDate st),
              modalAction := None, isModalOpen := True\<rparr>
      else st\<lparr>modalMessage := RequestVacationOn (newVacationDate st),
              modalAction := Some (ConfirmAddVacationRequest currentUser (newVacationDate st)),
              isModalOpen := True\<rparr>)"

definition confirmAddVacationRequest ::
  "user \<Rightarrow> string \<Rightarrow> componentState \<times> db \<Rightarrow> componentState \<times> db" where
  "confirmAddVacationRequest currentUser dateToAdd = (\<lambda>(st, d).
     let updatedVacations = sort (orEmptyList (vacationDates currentUser) @ [dateToAdd]);
         (r, d') = updateDoc (userId currentUser) (SetVacationDates updatedVacations) d;
         st' = (case r of
                  Inr _ \<Rightarrow> st\<lparr>newVacationDate := [], message := VacationRequestSubmitted\<rparr>
                | Inl e \<Rightarrow> st\<lparr>message := ErrorSubmittingVacation e\<rparr>)
     in (st'\<lparr>isModalOpen := False\<rparr>, d'))"

definition handleRemoveVacationRequest :: "user \<Rightarrow> string \<Rightarrow> componentState \<Rightarrow> componentState" where
  "handleRemoveVacationRequest currentUser dateToRemove st =
     st\<lparr>modalMessage := RemoveYourVacationOn dateToRemove,
        modalAction := Some (ConfirmRemoveVacationRequest currentUser dateToRemove),
        isModalOpen := True\<rparr>"

definition confirmRemoveVacationRequest ::
  "user \<Rightarrow> string \<Rightarrow> componentState \<times> db \<Rightarrow> componentState \<times> db" where
  "confirmRemoveVacationRequest currentUser dateToRemove = (\<lambda>(st, d).
     let updatedVacations =
           filter (\<lambda>date. date \<noteq> dateToRemove) (orEmptyList (vacationDates currentUser));
         (r, d') = updateDoc (userId currentUser) (SetVacationDates updatedVacations) d;
         st' = (case r of
                  Inr _ \<Rightarrow> st\<lparr>message := VacationRemoved\<rparr>
                | Inl e \<Rightarrow> st\<lparr>message := ErrorRemovingVacationRequest e\<rparr>)
     in (st'\<lparr>isModalOpen := False\<rparr>, d'))"

text \<open>
  The modal's button: \<open>if (modalAction) modalAction(); setIsModalOpen(false)\<close>. It reads
  "Confirm" with an action and "OK" without one.
\<close>

definition modalConfirmEV :: "componentState \<times> db \<Rightarrow> componentState \<times> db" where
  "modalConfirmEV = (\<lambda>(st, d).
     if \<not> isModalOpen st then (st, d)
     else let (st', d') =
                (case modalAction st of
                   Some (ConfirmAddVacationRequest u x) \<Rightarrow> confirmAddVacationRequest u x (st, d)
                 | Some (ConfirmRemoveVacationRequest u x) \<Rightarrow> confirmRemoveVacationRequest u x (st, d)
                 | _ \<Rightarrow> (st, d))
          in (st'\<lparr>isModalOpen := False\<rparr>, d'))"

text \<open>
  The two user actions of the view, from the click to the answer of the modal: the
  user types a date and presses "Request Vacation", or presses the remove button of a
  listed date, and then presses the modal's button.
\<close>

definition addVacationRequest :: "user \<Rightarrow> string \<Rightarrow> componentState \<times> db \<Rightarrow> componentState \<times> db" where
  "addVacationRequest currentUser date = (\<lambda>(st, d).
     modalConfirmEV (handleAddVacationRequest currentUser (st\<lparr>newVacationDate := date\<rparr>), d))"

definition removeVacationRequest :: "user \<Rightarrow> string \<Rightarrow> componentState \<times> db \<Rightarrow> componentState \<times> db" where
  "removeVacationRequest currentUser date = (\<lambda>(st, d).
     modalConfirmEV (handleRemoveVacationRequest currentUser date st, d))"

section \<open>Vacations of the team (ManagerVacationManagement.js)\<close>

definition handleAddVacation :: "user list \<Rightarrow> componentState \<Rightarrow> componentState" where
  "handleAddVacation myTeam st =
     (if selectedEngineerId st = [] \<or> newVacationDate st = []
      then st\<lparr>modalMessage := PleaseSelectEngineerAndDate, modalAction := None, isModalOpen := True\<rparr>
      else case find (\<lambda>e. userId e = selectedEngineerId st) myTeam of
        None \<Rightarrow> st
      | Some engineer \<Rightarrow>
          if newVacationDate st \<in> set (orEmptyList (vacationDates engineer))
          then st\<lparr>modalMessage := EngineerAlreadyHasVacation (name engineer) (newVacationDate st),
                  modalAction := None, isModalOpen := True\<rparr>
          else st\<lparr>modalMessage := AddVacationFor (name engineer) (newVacationDate st),
                  modalAction := Some (ConfirmAddVacation engineer (newVacationDate st)),
                  isModalOpen := True\<rparr>)"

definition confirmAddVacation ::
  "user \<Rightarrow> string \<Rightarrow> componentState \<times> db \<Rightarrow> componentState \<times> db" where
  "confirmAddVacation engineer dateToAdd = (\<lambda>(st, d).
     let updatedVacations = sort (orEmptyList (vacationDates engineer) @ [dateToAdd]);
         (r, d') = updateDoc (userId engineer) (SetVacationDates updatedVacations) d
     in case r of
          Inr _ \<Rightarrow> (st\<lparr>newVacationDate := [], isModalOpen := False\<rparr>, d')
        | Inl e \<Rightarrow> (st\<lparr>modalMessage := ErrorAddingVacation e, modalAction := None,
                       isModalOpen := True\<rparr>, d'))"

definition handleRemoveVacation :: "user \<Rightarrow> string \<Rightarrow> componentState \<Rightarrow> componentState" where
  "handleRemoveVacation engineer dateToRemove st =
     st\<lparr>modalMessage := RemoveVacationFor (name engineer) dateToRemove,
        modalAction := Some (ConfirmRemoveVacation engineer dateToRemove),
        isModalOpen := True\<rparr>"

definition confirmRemoveVacation ::
  "user \<Rightarrow> string \<Rightarrow> componentState \<times> db \<Rightarrow> componentState \<times> db" where
  "confirmRemoveVacation engineer dateToRemove = (\<lambda>(st, d).
     let updatedVacations =
           filter (\<lambda>date. date \<noteq> dateToRemove) (orEmptyList (vacationDates engineer));
         (r, d') = updateDoc (userId engineer) (SetVacationDates updatedVacations) d
     in case r of
          Inr _ \<Rightarrow> (st\<lparr>isModalOpen := False\<rparr>, d')
        | Inl e \<Rightarrow> (st\<lparr>modalMessage := ErrorRemovingVacation e, modalAction := None,
                       isModalOpen := True\<rparr>, d'))"

text \<open>
  This modal shows Cancel and Confirm only with an action (\<open>if (modalAction)
  modalAction()\<close>), and a lone OK button, which only closes it, without one.
\<close>

definition modalConfirmMV :: "componentState \<times> db \<Rightarrow> componentState \<times> db" where
  "modalConfirmMV = (\<lambda>(st, d).
     if \<not> isModalOpen st then (st, d)
     else case modalAction st of
       Some (ConfirmAddVacation e x) \<Rightarrow> confirmAddVacation e x (st, d)
     | Some (ConfirmRemoveVacation e x) \<Rightarrow> confirmRemoveVacation e x (st, d)
     | Some _ \<Rightarrow> (st, d)
     | None \<Rightarrow> (st\<lparr>isModalOpen := False\<rparr>, d))"

definition addVacation :: "user list \<Rightarrow> string \<Rightarrow> string \<Rightarrow> componentState \<times> db \<Rightarrow> componentState \<times> db" where
  "addVacation myTeam engineerId date = (\<lambda>(st, d).
     modalConfirmMV
       (handleAddVacation myTeam (st\<lparr>selectedEngineerId := engineerId, newVacationDate := date\<rparr>), d))"

definition removeVacation :: "user \<Rightarrow> string \<Rightarrow> componentState \<times> db \<Rightarrow> componentState \<times> db" where
  "removeVacation engineer date = (\<lambda>(st, d).
     modalConfirmMV (handleRemoveVacation engineer date st, d))"

section \<open>Vacation dates in the user form (AddEditUserModal.js)\<close>

text \<open>
  The form data has every field set: the effect that fills the form reads each field
  of the edited user as \<open>user.x || default\<close>. \<open>formData.vacationDates.includes\<close> on a
  missing list would be a \<open>TypeError\<close>.
\<close>

datatype jsError = TypeError

definition initialFormData :: "user option \<Rightarrow> userData" where
  "initialFormData u = (case u of
     Some user \<Rightarrow>
       \<lparr>name = Some (orElse (name user) []), email = Some (orElse (email user) []),
        role = Some (orElse (role user) ''Engineer''),
        managerId = Some (orElse (managerId user) []),
        workingHours = Some (orElse (workingHours user) []),
        shiftPattern = Some (orElse (shiftPattern user) []),
        vacationDates = Some (orEmptyList (vacationDates user)),
        skills = Some (orEmptyList (skills user)),
        srThreshold = Some (orZero (srThreshold user)),
        currentSrCount = Some (orZero (currentSrCount user))\<rparr>
   | None \<Rightarrow>
       \<lparr>name = Some [], email = Some [], role = Some ''Engineer'', managerId = Some [],
        workingHours = Some [], shiftPattern = Some [], vacationDates = Some [],
        skills = Some [], srThreshold = Some 0, currentSrCount = Some 0\<rparr>)"

definition handleAddVacationDate :: "string \<Rightarrow> userData \<Rightarrow> jsError + userData" where
  "handleAddVacationDate newDate formData =
     (if newDate = [] then Inr formData
      else case vacationDates formData of
        None \<Rightarrow> Inl TypeError
      | Some dates \<Rightarrow>
          if newDate \<notin> set dates
          then Inr (formData\<lparr>vacationDates := Some (sort (dates @ [newDate]))\<rparr>)
          else Inr formData)"

definition handleRemoveVacationDate :: "string \<Rightarrow> userData \<Rightarrow> jsError + userData" where
  "handleRemoveVacationDate dateToRemove formData =
     (case vacationDates formData of
        None \<Rightarrow> Inl TypeError
      | Some dates \<Rightarrow>
          Inr (formData\<lparr>vacationDates := Some (filter (\<lambda>date. date \<noteq> dateToRemove) dates)\<rparr>))"

section \<open>The users cache (useUsers.js)\<close>

text \<open>
  \<open>roleOrder[a.role]\<close>: the rank of the four roles, \<open>undefined\<close> for any other role and
  for a missing one. (A role spelled like a property that every object inherits, such
  as \<open>constructor\<close>, would read that property; such roles are not modelled.)
\<close>

definition roleOrder :: "string option \<Rightarrow> int option" where
  "roleOrder r =
     (if r = Some ''Admin'' then Some 0
      else if r = Some ''Manager'' then Some 1
      else if r = Some ''Engineer'' then Some 2
      else if r = Some ''Viewer'' then Some 3
      else None)"

text \<open>
  The comparison function handed to \<open>usersList.sort\<close>. Its result is a JavaScript
  number; \<open>None\<close> is \<open>NaN\<close>, the difference of two ranks one of which is \<open>undefined\<close>.
  \<open>localeCompare\<close> belongs to the runtime and its locale, so it is a parameter.
\<close>

definition compareUsers :: "(string \<Rightarrow> string \<Rightarrow> int) \<Rightarrow> user \<Rightarrow> user \<Rightarrow> int option" where
  "compareUsers localeCompare a b =
     (if roleOrder (role a) \<noteq> roleOrder (role b)
      then (case (roleOrder (role a), roleOrder (role b)) of
              (Some x, Some y) \<Rightarrow> Some (x - y)
            | _ \<Rightarrow> None)
      else Some (localeCompare (orElse (name a) []) (orElse (name b) [])))"

text \<open>
  \<open>Array.prototype.sort\<close> with a comparison function. The sort reads a \<open>NaN\<close> result
  as \<open>+0\<close> (\<open>sortCompare\<close>). The language fixes the result only for a comparison
  function that is consistent on the elements: it never answers \<open>NaN\<close>, "equal" is
  reflexive, symmetric and transitive, and "less" and "greater" are transitive. Then the
  result is the stable sort, the same list in every engine, computed here by stable
  insertion from the right (\<open>stableSort\<close>). For any other comparison function the
  order is left to the engine, and all that is known of the result is that it holds
  the same elements. \<open>arraySort comparefn xs ys\<close> says that \<open>ys\<close> is a result the sort
  may leave for \<open>xs\<close>.
\<close>

definition sortCompare :: "('a \<Rightarrow> 'a \<Rightarrow> int option) \<Rightarrow> 'a \<Rightarrow> 'a \<Rightarrow> int" where
  "sortCompare comparefn a b = (case comparefn a b of None \<Rightarrow> 0 | Some v \<Rightarrow> v)"

fun insertBy :: "('a \<Rightarrow> 'a \<Rightarrow> int option) \<Rightarrow> 'a \<Rightarrow> 'a list \<Rightarrow> 'a list" where
  "insertBy comparefn x [] = [x]"
| "insertBy comparefn x (y # ys) =
     (if sortCompare comparefn x y \<le> 0 then x # y # ys else y # insertBy comparefn x ys)"

definition stableSort :: "('a \<Rightarrow> 'a \<Rightarrow> int option) \<Rightarrow> 'a list \<Rightarrow> 'a list" where
  "stableSort comparefn xs = foldr (insertBy comparefn) xs []"

definition consistentComparator :: "('a \<Rightarrow> 'a \<Rightarrow> int option) \<Rightarrow> 'a list \<Rightarrow> bool" where
  "consistentComparator comparefn xs \<longleftrightarrow>
     (\<forall>a \<in> set xs. \<forall>b \<in> set xs. comparefn a b \<noteq> None)
   \<and> (\<forall>a \<in> set xs. sortCompare comparefn a a = 0)
   \<and> (\<forall>a \<in> set xs. \<forall>b \<in> set xs.
         sortCompare comparefn a b = 0 \<longrightarrow> sortCompare comparefn b a = 0)
   \<and> (\<forall>a \<in> set xs. \<forall>b \<in> set xs. \<forall>c \<in> set xs.
         sortCompare comparefn a b = 0 \<and> sortCompare comparefn b c = 0
           \<longrightarrow> sortCompare comparefn a c = 0)
   \<and> (\<forall>a \<in> set xs. \<forall>b \<in> set xs. \<forall>c \<in> set xs.
         sortCompare comparefn a b < 0 \<and> sortCompare comparefn b c < 0
           \<longrightarrow> sortCompare comparefn a c < 0)
   \<and> (\<forall>a \<in> set xs. \<forall>b \<in> set xs. \<forall>c \<in> set xs.
         0 < sortCompare comparefn a b \<and> 0 < sortCompare comparefn b c
           \<longrightarrow> 0 < sortCompare comparefn a c)"

definition arraySort :: "('a \<Rightarrow> 'a \<Rightarrow> int option) \<Rightarrow> 'a list \<Rightarrow> 'a list \<Rightarrow> bool" where
  "arraySort comparefn xs ys \<longleftrightarrow>
     (if consistentComparator comparefn xs then ys = stableSort comparefn xs
      else mset ys = mset xs)"

text \<open>What a collection hook returns: the cached records, the loading flag, the error.\<close>

record 'a cache =
  records :: "'a list"
  loading :: bool
  error :: "string option"

definition initialCache :: "'a cache" where
  "initialCache = \<lparr>records = [], loading = True, error = None\<rparr>"

text \<open>
  The snapshot callback of \<open>onSnapshot\<close> in \<open>useUsers\<close>, as a step from the cache
  before to a cache after: the records are a result of sorting \<open>usersList\<close>, and the
  cache is no longer loading.
\<close>

definition onUsersSnapshot ::
  "(string \<Rightarrow> string \<Rightarrow> int) \<Rightarrow> (string \<times> userData) list \<Rightarrow> user cache \<Rightarrow> user cache \<Rightarrow> bool" where
  "onUsersSnapshot localeCompare snapshotDocs c c' \<longleftrightarrow>
     (let usersList = map (\<lambda>(i, d). withId i d) snapshotDocs
      in arraySort (compareUsers localeCompare) usersList (records c')
         \<and> c' = c\<lparr>records := records c', loading := False\<rparr>)"

section \<open>Grouping by role (OverallRosterView)\<close>

definition managers :: "user list \<Rightarrow> user list" where
  "managers users = filter (\<lambda>u. role u = Some ''Manager'') users"

definition engineersAndViewers :: "user list \<Rightarrow> user list" where
  "engineersAndViewers users =
     filter (\<lambda>u. role u = Some ''Engineer'' \<or> role u = Some ''Viewer'') users"

text \<open>
  The rows of the table "Other Users (Admins, Unassigned)":
  \<open>u.role === 'Admin' || (u.role !== 'Manager' && !u.managerId)\<close>. (The view shows
  its tables only when \<open>managers\<close> or \<open>engineersAndViewers\<close> is not empty; this is the
  filter alone.)
\<close>

definition otherUsers :: "user list \<Rightarrow> user list" where
  "otherUsers users =
     filter (\<lambda>u. role u = Some ''Admin'' \<or>
                  (role u \<noteq> Some ''Manager'' \<and> orElse (managerId u) [] = [])) users"

section \<open>The view router (App.js)\<close>

text \<open>
  The pages \<open>renderView\<close> returns: the not-signed-in page, the four dashboards with
  their props, and the access-denied page.
\<close>

datatype view =
    NotSignedIn
  | AdminView user "user list" "skill list"
  | ManagerView user "user list" "skill list"
  | EngineerView user "user list" "skill list"
  | ViewerView user "user list" "skill list"
  | AccessDenied user

definition renderView :: "user option \<Rightarrow> user list \<Rightarrow> skill list \<Rightarrow> view" where
  "renderView currentUser users skills' =
     (case currentUser of
        None \<Rightarrow> NotSignedIn
      | Some u \<Rightarrow>
          if role u = Some ''Admin'' then AdminView u users skills'
          else if role u = Some ''Manager'' then ManagerView u users skills'
          else if role u = Some ''Engineer'' then EngineerView u users skills'
          else if role u = Some ''Viewer'' then ViewerView u users skills'
          else AccessDenied u)"

text \<open>
  The state of the router: which of the six pages \<open>renderView\<close> returns.
\<close>

datatype routerState = NoSession | Admin | Manager | Engineer | Viewer | UnknownRole

fun routerStateOf :: "view \<Rightarrow> routerState" where
  "routerStateOf NotSignedIn = NoSession"
| "routerStateOf (AdminView u us ss) = Admin"
| "routerStateOf (ManagerView u us ss) = Manager"
| "routerStateOf (EngineerView u us ss) = Engineer"
| "routerStateOf (ViewerView u us ss) = Viewer"
| "routerStateOf (AccessDenied u) = UnknownRole"

section \<open>Session resolution (FirebaseContext.js)\<close>

text \<open>The signed-in identity: its \<open>uid\<close> and its email, which an anonymous session lacks.\<close>

record authUser =
  uid :: string
  authEmail :: "string option"

record provider =
  currentUser :: "user option"
  isAuthReady :: bool

definition defaultUser :: "authUser \<Rightarrow> userData" where
  "defaultUser user =
     \<lparr>name = Some (orElse (authEmail user) (''Anonymous User '' @ take 5 (uid user))),
      email = Some (orElse (authEmail user) (uid user @ ''@example.com'')),
      role = Some ''Viewer'',
      managerId = None,
      workingHours = Some ''9 AM - 5 PM'',
      shiftPattern = Some ''Day Shift'',
      vacationDates = Some [],
      skills = Some [],
      srThreshold = Some 0,
      currentSrCount = Some 0\<rparr>"

text \<open>
  \<open>{ ...user, ...data, id: user.uid }\<close>: the document's fields over those of the
  identity, of which only \<open>email\<close> is a field of a user. (The data model does not
  tell a stored \<open>null\<close> from a missing field; a stored \<open>email: null\<close>, which the spread
  would keep, is read here as missing.)
\<close>

definition mergeUser :: "authUser \<Rightarrow> userData \<Rightarrow> user" where
  "mergeUser user data =
     (withId (uid user) data)
       \<lparr>email := (case email data of None \<Rightarrow> authEmail user | Some e \<Rightarrow> Some e)\<rparr>"

text \<open>The observer registered with \<open>onAuthStateChanged\<close>.\<close>

definition onAuthStateChanged :: "authUser option \<Rightarrow> provider \<times> db \<Rightarrow> provider \<times> db" where
  "onAuthStateChanged signedIn = (\<lambda>(p, d).
     case signedIn of
       Some user \<Rightarrow>
         (case getDoc (uid user) d of
            Some data \<Rightarrow> (p\<lparr>currentUser := Some (mergeUser user data), isAuthReady := True\<rparr>, d)
          | None \<Rightarrow>
              (let d' = setDoc (uid user) (defaultUser user) d
               in (p\<lparr>currentUser := Some (mergeUser user (defaultUser user)),
                     isAuthReady := True\<rparr>, d')))
     | None \<Rightarrow> (p\<lparr>currentUser := None, isAuthReady := True\<rparr>, d))"

section \<open>The order of the users cache, in the words of the specification\<close>

text \<open>
  One record may stand before another in the cache when its role rank is lower, or when
  the ranks are equal and its name does not compare greater. Two records have the same
  keys when their roles are equal and their names compare equal.
\<close>

definition cacheOrder :: "(string \<Rightarrow> string \<Rightarrow> int) \<Rightarrow> user \<Rightarrow> user \<Rightarrow> bool" where
  "cacheOrder localeCompare a b =
     (case (roleOrder (role a), roleOrder (role b)) of
        (Some x, Some y) \<Rightarrow>
          x < y \<or> (x = y \<and> localeCompare (orElse (name a) []) (orElse (name b) []) \<le> 0)
      | _ \<Rightarrow> False)"

definition sameKeys :: "(string \<Rightarrow> string \<Rightarrow> int) \<Rightarrow> user \<Rightarrow> user \<Rightarrow> bool" where
  "sameKeys localeCompare a b \<longleftrightarrow>
     role a = role b \<and> localeCompare (orElse (name a) []) (orElse (name b) []) = 0"

text \<open>
  A name comparison for the examples: the order of the code units, the result
  \<open>localeCompare\<close> gives for plain ASCII names of one letter case.
\<close>

definition codeUnitCompare :: "string \<Rightarrow> string \<Rightarrow> int" where
  "codeUnitCompare a b = (if a < b then - 1 else if a = b then 0 else 1)"

section \<open>Initial states and example records\<close>

text \<open>The initial values of the \<open>useState\<close> variables of the three components.\<close>

definition initialState :: componentState where
  "initialState = \<lparr>selectedEngineerId = [], isForceAssign = False, newVacationDate = [],
     message = Blank, isModalOpen = False, modalMessage = Blank, modalAction = None\<rparr>"

text \<open>A document that has a role and a name and no other field.\<close>

definition exampleData :: "string \<Rightarrow> string \<Rightarrow> userData" where
  "exampleData r n = \<lparr>name = Some n, email = None, role = Some r, managerId = None,
     workingHours = None, shiftPattern = None, vacationDates = None, skills = None,
     srThreshold = None, currentSrCount = None\<rparr>"

text \<open>A store that holds one document and has seen no write.\<close>

definition singleDoc :: "string \<Rightarrow> userData \<Rightarrow> db" where
  "singleDoc i u = \<lparr>docs = [i \<mapsto> u], writes = []\<rparr>"


text \<open>The vacation dates the store holds for a user: \<open>vacationDates || []\<close> of the document.\<close>

definition storedVacationDates :: "db \<Rightarrow> string \<Rightarrow> string list" where
  "storedVacationDates d i = (case docs d i of None \<Rightarrow> [] | Some u \<Rightarrow> orEmptyList (vacationDates u))"

section \<open>Properties of the number model\<close>

lemma quantum_small: "m < 2 ^ 53 \<Longrightarrow> quantum m = 1"
  by (subst quantum.simps) simp

lemma quantum_next: "2 ^ 53 \<le> m \<Longrightarrow> m < 2 ^ 54 \<Longrightarrow> quantum m = 2"
  by (subst quantum.simps) (simp add: quantum_small)

text \<open>Every integer up to \<open>2^53\<close> in magnitude is a double, and sums within that range are exact.\<close>

lemma toDouble_exact:
  assumes "\<bar>n\<bar> \<le> 2 ^ 53"
  shows "toDouble n = n"
proof (cases "\<bar>n\<bar> < 2 ^ 53")
  case True
  then have "quantum (nat \<bar>n\<bar>) = 1" by (intro quantum_small) simp
  then show ?thesis by (simp add: toDouble_def Let_def) (simp add: sgn_if)
next
  case False
  with assms have n: "\<bar>n\<bar> = 2 ^ 53" by simp
  then have m: "nat \<bar>n\<bar> = 2 ^ 53" by simp
  have "quantum (nat \<bar>n\<bar>) = 2" unfolding m by (rule quantum_next) simp_all
  then show ?thesis using n by (simp add: toDouble_def Let_def m) (auto simp add: sgn_if)
qed

lemma jsAdd_exact:
  assumes "\<bar>a\<bar> \<le> 2 ^ 53" and "\<bar>b\<bar> \<le> 2 ^ 53" and "\<bar>a + b\<bar> \<le> 2 ^ 53"
  shows "jsAdd a b = a + b"
  using assms by (simp add: jsAdd_def toDouble_exact)

text \<open>At \<open>2^53\<close> adding 1 is lost to rounding: \<open>2^53 + 1\<close> is a tie, and \<open>2^53\<close> is even.\<close>

lemma jsAdd_at_2_53: "jsAdd 9007199254740992 1 = 9007199254740992"
proof -
  have q: "quantum 9007199254740993 = 2" by (rule quantum_next) simp_all
  have "toDouble 9007199254740993 = 9007199254740992"
    by (simp add: toDouble_def Let_def q)
  then show ?thesis by (simp add: jsAdd_def toDouble_exact)
qed

section \<open>Properties of SR assignment\<close>

lemma updateDoc_writes: "writes (snd (updateDoc i f d)) = writes d @ [UpdateDoc i f]"
  by (simp add: updateDoc_def Let_def split: option.split)

lemma updateDoc_docs:
  "docs (snd (updateDoc i f d)) =
     (case docs d i of None \<Rightarrow> docs d | Some u \<Rightarrow> (docs d)(i \<mapsto> applyUpdate f u))"
  by (simp add: updateDoc_def Let_def split: option.split)

lemma confirmAssignSR_writes:
  "writes (snd (confirmAssignSR engineer force (st, d))) =
     writes d @ [UpdateDoc (userId engineer) (SetCurrentSrCount (jsAdd (orZero (currentSrCount engineer)) 1))]"
  by (simp add: confirmAssignSR_def Let_def split_beta updateDoc_writes)

lemma confirmAssignSR_docs:
  "docs (snd (confirmAssignSR engineer force (st, d))) =
     (case docs d (userId engineer) of
        None \<Rightarrow> docs d
      | Some u \<Rightarrow> (docs d)(userId engineer \<mapsto> u\<lparr>currentSrCount := Some (jsAdd (orZero (currentSrCount engineer)) 1)\<rparr>))"
  by (simp add: confirmAssignSR_def Let_def split_beta updateDoc_docs split: option.split)

lemma handleAssignSR_blocked:
  assumes "selectedEngineerId st \<noteq> []"
    and "find (\<lambda>e. userId e = selectedEngineerId st) myTeam = Some engineer"
    and "\<not> isForceAssign st" and "overThreshold engineer"
  shows "handleAssignSR myTeam (st, d) =
           (st\<lparr>modalMessage := ReachedThreshold (name engineer) (orZero (srThreshold engineer)),
               modalAction := Some (ConfirmAssignSR engineer True),
               isModalOpen := True\<rparr>, d)"
  using assms by (simp add: handleAssignSR_def)

lemma handleAssignSR_passed:
  assumes "selectedEngineerId st \<noteq> []"
    and "find (\<lambda>e. userId e = selectedEngineerId st) myTeam = Some engineer"
    and "isForceAssign st \<or> \<not> overThreshold engineer"
  shows "handleAssignSR myTeam (st, d) = confirmAssignSR engineer (isForceAssign st) (st, d)"
  using assms by (auto simp add: handleAssignSR_def)

lemma modalConfirmSR_run:
  assumes "isModalOpen st" and "modalAction st = Some (ConfirmAssignSR engineer force)"
  shows "modalConfirmSR (st, d) = confirmAssignSR engineer force (st, d)"
  using assms by (simp add: modalConfirmSR_def)

text \<open>
  An assignment to an engineer whose count is \<open>2^53\<close> writes \<open>2^53\<close> again.
\<close>

lemma confirmAssignSR_at_2_53:
  "writes (snd (confirmAssignSR
      (withId ''e1'' ((exampleData ''Engineer'' ''Eve'')\<lparr>srThreshold := Some 9007199254740992,
                                                      currentSrCount := Some 9007199254740992\<rparr>))
      True
      (initialState,
       singleDoc ''e1'' ((exampleData ''Engineer'' ''Eve'')\<lparr>srThreshold := Some 9007199254740992,
                                                        currentSrCount := Some 9007199254740992\<rparr>))))
   = [UpdateDoc ''e1'' (SetCurrentSrCount 9007199254740992)]"
  by (simp add: confirmAssignSR_writes withId_def exampleData_def orZero_def singleDoc_def
      jsAdd_at_2_53)

text \<open>
  C1. An engineer is selected and found in the team, and the count equals the
  threshold (both read with \<open>|| 0\<close>). Without force, Assign SR issues no write, leaves
  the store as it is and opens the confirmation modal with the forced assignment as its
  action; confirming then issues exactly one write, \<open>currentSrCount = threshold + 1\<close>.
  With force, Assign SR issues exactly that one write at once. The write leaves the
  engineer's document in the store with that count and its other fields as they were.
  The sum is the one JavaScript computes; it is the integer \<open>threshold + 1\<close> for every
  threshold below \<open>2^53\<close> in magnitude.
\<close>

theorem assign_sr_at_threshold:
  assumes sel: "selectedEngineerId st \<noteq> []"
    and found: "find (\<lambda>e. userId e = selectedEngineerId st) myTeam = Some engineer"
    and eq: "orZero (currentSrCount engineer) = orZero (srThreshold engineer)"
  shows "(\<not> isForceAssign st \<longrightarrow>
            snd (handleAssignSR myTeam (st, d)) = d
          \<and> isModalOpen (fst (handleAssignSR myTeam (st, d)))
          \<and> modalAction (fst (handleAssignSR myTeam (st, d))) = Some (ConfirmAssignSR engineer True)
          \<and> writes (snd (modalConfirmSR (handleAssignSR myTeam (st, d)))) =
              writes d @ [UpdateDoc (userId engineer)
                            (SetCurrentSrCount (jsAdd (orZero (srThreshold engineer)) 1))])
       \<and> (isForceAssign st \<longrightarrow>
            writes (snd (handleAssignSR myTeam (st, d))) =
              writes d @ [UpdateDoc (userId engineer)
                            (SetCurrentSrCount (jsAdd (orZero (srThreshold engineer)) 1))])
       \<and> (docs d (userId engineer) = Some doc \<longrightarrow>
            docs (snd (confirmAssignSR engineer True (st, d))) (userId engineer) =
              Some (doc\<lparr>currentSrCount := Some (jsAdd (orZero (srThreshold engineer)) 1)\<rparr>))
       \<and> (\<bar>orZero (srThreshold engineer)\<bar> < 2 ^ 53 \<longrightarrow>
            jsAdd (orZero (srThreshold engineer)) 1 = orZero (srThreshold engineer) + 1)"
proof (intro conjI impI)
  assume "\<bar>orZero (srThreshold engineer)\<bar> < 2 ^ 53"
  then show "jsAdd (orZero (srThreshold engineer)) 1 = orZero (srThreshold engineer) + 1"
    by (intro jsAdd_exact) simp_all
next
  assume "docs d (userId engineer) = Some doc"
  then show "docs (snd (confirmAssignSR engineer True (st, d))) (userId engineer) =
              Some (doc\<lparr>currentSrCount := Some (jsAdd (orZero (srThreshold engineer)) 1)\<rparr>)"
    by (simp add: confirmAssignSR_docs eq)
next
  assume nf: "\<not> isForceAssign st"
  have over: "overThreshold engineer" using eq by (simp add: overThreshold_def)
  note blocked = handleAssignSR_blocked [OF sel found nf over, of d]
  show "snd (handleAssignSR myTeam (st, d)) = d" by (simp add: blocked)
  show "isModalOpen (fst (handleAssignSR myTeam (st, d)))" by (simp add: blocked)
  show "modalAction (fst (handleAssignSR myTeam (st, d))) = Some (ConfirmAssignSR engineer True)"
    by (simp add: blocked)
  show "writes (snd (modalConfirmSR (handleAssignSR myTeam (st, d)))) =
          writes d @ [UpdateDoc (userId engineer) (SetCurrentSrCount (jsAdd (orZero (srThreshold engineer)) 1))]"
    by (simp add: blocked modalConfirmSR_run confirmAssignSR_writes eq)
next
  assume f: "isForceAssign st"
  show "writes (snd (handleAssignSR myTeam (st, d))) =
          writes d @ [UpdateDoc (userId engineer) (SetCurrentSrCount (jsAdd (orZero (srThreshold engineer)) 1))]"
    using handleAssignSR_passed [OF sel found, of d] f by (simp add: confirmAssignSR_writes eq)
qed

theorem assign_sr_at_threshold_witness:
  "selectedEngineerId (initialState\<lparr>selectedEngineerId := ''e1''\<rparr>) \<noteq> []
   \<and> \<not> isForceAssign (initialState\<lparr>selectedEngineerId := ''e1''\<rparr>)
   \<and> snd (handleAssignSR
        [withId ''e1'' ((exampleData ''Engineer'' ''Eve'')\<lparr>srThreshold := Some 2, currentSrCount := Some 2\<rparr>)]
        (initialState\<lparr>selectedEngineerId := ''e1''\<rparr>,
         singleDoc ''e1'' ((exampleData ''Engineer'' ''Eve'')\<lparr>srThreshold := Some 2, currentSrCount := Some 2\<rparr>)))
      = singleDoc ''e1'' ((exampleData ''Engineer'' ''Eve'')\<lparr>srThreshold := Some 2, currentSrCount := Some 2\<rparr>)
   \<and> writes (snd (modalConfirmSR (handleAssignSR
        [withId ''e1'' ((exampleData ''Engineer'' ''Eve'')\<lparr>srThreshold := Some 2, currentSrCount := Some 2\<rparr>)]
        (initialState\<lparr>selectedEngineerId := ''e1''\<rparr>,
         singleDoc ''e1'' ((exampleData ''Engineer'' ''Eve'')\<lparr>srThreshold := Some 2, currentSrCount := Some 2\<rparr>)))))
      = [UpdateDoc ''e1'' (SetCurrentSrCount 3)]"
proof -
  let ?e = "withId ''e1'' ((exampleData ''Engineer'' ''Eve'')\<lparr>srThreshold := Some 2, currentSrCount := Some 2\<rparr>)"
  let ?st = "initialState\<lparr>selectedEngineerId := ''e1''\<rparr>"
  have h1: "selectedEngineerId ?st \<noteq> []" by (simp add: initialState_def)
  have h2: "find (\<lambda>e. userId e = selectedEngineerId ?st) [?e] = Some ?e"
    by (simp add: initialState_def withId_def)
  have h3: "orZero (currentSrCount ?e) = orZero (srThreshold ?e)"
    by (simp add: withId_def exampleData_def orZero_def)
  have h4: "\<not> isForceAssign ?st" by (simp add: initialState_def)
  have w: "writes (singleDoc ''e1'' ((exampleData ''Engineer'' ''Eve'')\<lparr>srThreshold := Some 2, currentSrCount := Some 2\<rparr>)) = []"
    by (simp add: singleDoc_def)
  have t: "jsAdd (orZero (srThreshold ?e)) 1 = 3" "userId ?e = ''e1''"
    by (simp_all add: withId_def exampleData_def orZero_def jsAdd_exact)
  show ?thesis
    using assign_sr_at_threshold [OF h1 h2 h3] h1 h4 by (simp add: w t)
qed

text \<open>
  C2, as stated, fails: an engineer with threshold 0 (and no count) is over threshold, and
  the non-forced Assign SR blocks: it opens the confirmation modal and writes nothing.
\<close>

theorem threshold_zero_counterexample:
  "orZero (srThreshold (withId ''e1'' ((exampleData ''Engineer'' ''Eve'')\<lparr>srThreshold := Some 0\<rparr>))) = 0
   \<and> overThreshold (withId ''e1'' ((exampleData ''Engineer'' ''Eve'')\<lparr>srThreshold := Some 0\<rparr>))
   \<and> handleAssignSR [withId ''e1'' ((exampleData ''Engineer'' ''Eve'')\<lparr>srThreshold := Some 0\<rparr>)]
        (initialState\<lparr>selectedEngineerId := ''e1''\<rparr>,
         singleDoc ''e1'' ((exampleData ''Engineer'' ''Eve'')\<lparr>srThreshold := Some 0\<rparr>))
      = (initialState\<lparr>selectedEngineerId := ''e1'',
            modalMessage := ReachedThreshold (Some ''Eve'') 0,
            modalAction := Some (ConfirmAssignSR
              (withId ''e1'' ((exampleData ''Engineer'' ''Eve'')\<lparr>srThreshold := Some 0\<rparr>)) True),
            isModalOpen := True\<rparr>,
         singleDoc ''e1'' ((exampleData ''Engineer'' ''Eve'')\<lparr>srThreshold := Some 0\<rparr>))"
  by (simp add: handleAssignSR_def overThreshold_def orZero_def withId_def exampleData_def
      initialState_def)

text \<open>
  C2, amended. The over-threshold status is \<open>(currentSrCount || 0) >= (srThreshold ||
  0)\<close> for every threshold, zero included. The non-forced Assign SR blocks (no write,
  confirmation modal) exactly when the engineer is over threshold, and assigns at once
  otherwise; an engineer with threshold zero and a count that is not negative is over
  threshold.
\<close>

theorem over_threshold_gate:
  assumes sel: "selectedEngineerId st \<noteq> []"
    and found: "find (\<lambda>e. userId e = selectedEngineerId st) myTeam = Some engineer"
    and nf: "\<not> isForceAssign st"
  shows "(overThreshold engineer \<longleftrightarrow> orZero (srThreshold engineer) \<le> orZero (currentSrCount engineer))
       \<and> (overThreshold engineer \<longrightarrow>
            snd (handleAssignSR myTeam (st, d)) = d
          \<and> isModalOpen (fst (handleAssignSR myTeam (st, d)))
          \<and> modalAction (fst (handleAssignSR myTeam (st, d))) = Some (ConfirmAssignSR engineer True))
       \<and> (\<not> overThreshold engineer \<longrightarrow>
            handleAssignSR myTeam (st, d) = confirmAssignSR engineer False (st, d))
       \<and> (orZero (srThreshold engineer) = 0 \<and> 0 \<le> orZero (currentSrCount engineer) \<longrightarrow>
            overThreshold engineer)"
proof (intro conjI impI)
  show "overThreshold engineer \<longleftrightarrow> orZero (srThreshold engineer) \<le> orZero (currentSrCount engineer)"
    by (simp add: overThreshold_def)
next
  assume over: "overThreshold engineer"
  note blocked = handleAssignSR_blocked [OF sel found nf over, of d]
  show "snd (handleAssignSR myTeam (st, d)) = d" by (simp add: blocked)
  show "isModalOpen (fst (handleAssignSR myTeam (st, d)))" by (simp add: blocked)
  show "modalAction (fst (handleAssignSR myTeam (st, d))) = Some (ConfirmAssignSR engineer True)"
    by (simp add: blocked)
next
  assume "\<not> overThreshold engineer"
  then show "handleAssignSR myTeam (st, d) = confirmAssignSR engineer False (st, d)"
    using handleAssignSR_passed [OF sel found, of d] nf by simp
next
  assume "orZero (srThreshold engineer) = 0 \<and> 0 \<le> orZero (currentSrCount engineer)"
  then show "overThreshold engineer" by (simp add: overThreshold_def)
qed


theorem over_threshold_gate_witness:
  "selectedEngineerId (initialState\<lparr>selectedEngineerId := ''e1''\<rparr>) \<noteq> []
   \<and> \<not> isForceAssign (initialState\<lparr>selectedEngineerId := ''e1''\<rparr>)
   \<and> orZero (srThreshold (withId ''e1'' ((exampleData ''Engineer'' ''Eve'')\<lparr>srThreshold := Some 0, currentSrCount := Some 0\<rparr>))) = 0
   \<and> overThreshold (withId ''e1'' ((exampleData ''Engineer'' ''Eve'')\<lparr>srThreshold := Some 0, currentSrCount := Some 0\<rparr>))
   \<and> isModalOpen (fst (handleAssignSR
        [withId ''e1'' ((exampleData ''Engineer'' ''Eve'')\<lparr>srThreshold := Some 0, currentSrCount := Some 0\<rparr>)]
        (initialState\<lparr>selectedEngineerId := ''e1''\<rparr>,
         singleDoc ''e1'' ((exampleData ''Engineer'' ''Eve'')\<lparr>srThreshold := Some 0, currentSrCount := Some 0\<rparr>))))
   \<and> writes (snd (handleAssignSR
        [withId ''e1'' ((exampleData ''Engineer'' ''Eve'')\<lparr>srThreshold := Some 0, currentSrCount := Some 0\<rparr>)]
        (initialState\<lparr>selectedEngineerId := ''e1''\<rparr>,
         singleDoc ''e1'' ((exampleData ''Engineer'' ''Eve'')\<lparr>srThreshold := Some 0, currentSrCount := Some 0\<rparr>)))) = []"
proof -
  let ?e = "withId ''e1'' ((exampleData ''Engineer'' ''Eve'')\<lparr>srThreshold := Some 0, currentSrCount := Some 0\<rparr>)"
  let ?st = "initialState\<lparr>selectedEngineerId := ''e1''\<rparr>"
  let ?d = "singleDoc ''e1'' ((exampleData ''Engineer'' ''Eve'')\<lparr>srThreshold := Some 0, currentSrCount := Some 0\<rparr>)"
  have h1: "selectedEngineerId ?st \<noteq> []" by (simp add: initialState_def)
  have h2: "find (\<lambda>e. userId e = selectedEngineerId ?st) [?e] = Some ?e"
    by (simp add: initialState_def withId_def)
  have h3: "\<not> isForceAssign ?st" by (simp add: initialState_def)
  have z: "orZero (srThreshold ?e) = 0" "0 \<le> orZero (currentSrCount ?e)"
    by (simp_all add: withId_def exampleData_def orZero_def)
  have w: "writes ?d = []" by (simp add: singleDoc_def)
  from over_threshold_gate [OF h1 h2 h3, of ?d] z
  have "overThreshold ?e" and "snd (handleAssignSR [?e] (?st, ?d)) = ?d"
    and "isModalOpen (fst (handleAssignSR [?e] (?st, ?d)))"
    by blast+
  then show ?thesis using h1 h3 z w by simp
qed

text \<open>
  C10. A missing \<open>currentSrCount\<close> or \<open>srThreshold\<close> is read as 0 by Assign SR: the
  gate answers as it does for the record with the field set to 0, and an assignment
  to an engineer without a count writes \<open>currentSrCount = 1\<close>. With both fields
  missing and no force, Assign SR blocks (0 >= 0): no write, the confirmation modal;
  the confirmed assignment issues the one write \<open>currentSrCount = 1\<close>.
\<close>

theorem absent_sr_fields_read_as_zero:
  assumes sel: "selectedEngineerId st \<noteq> []"
    and found: "find (\<lambda>e. userId e = selectedEngineerId st) myTeam = Some engineer"
  shows "(currentSrCount engineer = None \<longrightarrow>
            overThreshold engineer = overThreshold (engineer\<lparr>currentSrCount := Some 0\<rparr>)
          \<and> writes (snd (confirmAssignSR engineer force (st, d))) =
              writes d @ [UpdateDoc (userId engineer) (SetCurrentSrCount 1)])
       \<and> (srThreshold engineer = None \<longrightarrow>
            overThreshold engineer = overThreshold (engineer\<lparr>srThreshold := Some 0\<rparr>))
       \<and> (currentSrCount engineer = None \<and> srThreshold engineer = None \<and> \<not> isForceAssign st \<longrightarrow>
            snd (handleAssignSR myTeam (st, d)) = d
          \<and> isModalOpen (fst (handleAssignSR myTeam (st, d)))
          \<and> modalAction (fst (handleAssignSR myTeam (st, d))) = Some (ConfirmAssignSR engineer True)
          \<and> writes (snd (modalConfirmSR (handleAssignSR myTeam (st, d)))) =
              writes d @ [UpdateDoc (userId engineer) (SetCurrentSrCount 1)])"
proof (intro conjI impI)
  assume "currentSrCount engineer = None"
  then show "overThreshold engineer = overThreshold (engineer\<lparr>currentSrCount := Some 0\<rparr>)"
    and "writes (snd (confirmAssignSR engineer force (st, d))) =
          writes d @ [UpdateDoc (userId engineer) (SetCurrentSrCount 1)]"
    by (simp_all add: overThreshold_def orZero_def confirmAssignSR_writes jsAdd_exact)
next
  assume "srThreshold engineer = None"
  then show "overThreshold engineer = overThreshold (engineer\<lparr>srThreshold := Some 0\<rparr>)"
    by (simp add: overThreshold_def orZero_def)
next
  assume a: "currentSrCount engineer = None \<and> srThreshold engineer = None \<and> \<not> isForceAssign st"
  then have over: "overThreshold engineer" and nf: "\<not> isForceAssign st"
    by (simp_all add: overThreshold_def orZero_def)
  note blocked = handleAssignSR_blocked [OF sel found nf over, of d]
  show "snd (handleAssignSR myTeam (st, d)) = d" by (simp add: blocked)
  show "isModalOpen (fst (handleAssignSR myTeam (st, d)))" by (simp add: blocked)
  show "modalAction (fst (handleAssignSR myTeam (st, d))) = Some (ConfirmAssignSR engineer True)"
    by (simp add: blocked)
  show "writes (snd (modalConfirmSR (handleAssignSR myTeam (st, d)))) =
          writes d @ [UpdateDoc (userId engineer) (SetCurrentSrCount 1)]"
    using a by (simp add: blocked modalConfirmSR_run confirmAssignSR_writes orZero_def jsAdd_exact)
qed

theorem absent_sr_fields_read_as_zero_witness:
  "selectedEngineerId (initialState\<lparr>selectedEngineerId := ''e2''\<rparr>) \<noteq> []
   \<and> currentSrCount (withId ''e2'' (exampleData ''Engineer'' ''Noor'')) = None
   \<and> srThreshold (withId ''e2'' (exampleData ''Engineer'' ''Noor'')) = None
   \<and> \<not> isForceAssign (initialState\<lparr>selectedEngineerId := ''e2''\<rparr>)
   \<and> isModalOpen (fst (handleAssignSR [withId ''e2'' (exampleData ''Engineer'' ''Noor'')]
        (initialState\<lparr>selectedEngineerId := ''e2''\<rparr>, singleDoc ''e2'' (exampleData ''Engineer'' ''Noor''))))
   \<and> writes (snd (handleAssignSR [withId ''e2'' (exampleData ''Engineer'' ''Noor'')]
        (initialState\<lparr>selectedEngineerId := ''e2''\<rparr>, singleDoc ''e2'' (exampleData ''Engineer'' ''Noor'')))) = []
   \<and> writes (snd (modalConfirmSR (handleAssignSR [withId ''e2'' (exampleData ''Engineer'' ''Noor'')]
        (initialState\<lparr>selectedEngineerId := ''e2''\<rparr>, singleDoc ''e2'' (exampleData ''Engineer'' ''Noor'')))))
      = [UpdateDoc ''e2'' (SetCurrentSrCount 1)]"
proof -
  let ?e = "withId ''e2'' (exampleData ''Engineer'' ''Noor'')"
  let ?st = "initialState\<lparr>selectedEngineerId := ''e2''\<rparr>"
  let ?d = "singleDoc ''e2'' (exampleData ''Engineer'' ''Noor'')"
  have h1: "selectedEngineerId ?st \<noteq> []" by (simp add: initialState_def)
  have h2: "find (\<lambda>e. userId e = selectedEngineerId ?st) [?e] = Some ?e"
    by (simp add: initialState_def withId_def)
  have h3: "currentSrCount ?e = None" "srThreshold ?e = None" "\<not> isForceAssign ?st"
    by (simp_all add: withId_def exampleData_def initialState_def)
  have w: "writes ?d = []" "userId ?e = ''e2''" by (simp_all add: singleDoc_def withId_def)
  from absent_sr_fields_read_as_zero [OF h1 h2, of True ?d] h3
  have "snd (handleAssignSR [?e] (?st, ?d)) = ?d"
    and "isModalOpen (fst (handleAssignSR [?e] (?st, ?d)))"
    and "writes (snd (modalConfirmSR (handleAssignSR [?e] (?st, ?d)))) =
           writes ?d @ [UpdateDoc (userId ?e) (SetCurrentSrCount 1)]"
    by blast+
  then show ?thesis using h1 h3 w by simp
qed


section \<open>Properties of the vacation mutators\<close>

lemma updateDoc_stored:
  "storedVacationDates (snd (updateDoc i (SetVacationDates xs) d)) j =
     (if j = i \<and> docs d i \<noteq> None then xs else storedVacationDates d j)"
  by (auto simp add: updateDoc_def storedVacationDates_def orEmptyList_def Let_def
      split: option.split)

lemma addVacationRequest_db:
  assumes "\<not> isModalOpen st"
  shows "snd (addVacationRequest u date (st, d)) =
     (if date = [] \<or> date \<in> set (orEmptyList (vacationDates u)) then d
      else snd (updateDoc (userId u)
                  (SetVacationDates (sort (orEmptyList (vacationDates u) @ [date]))) d))"
  using assms
  by (simp add: addVacationRequest_def handleAddVacationRequest_def modalConfirmEV_def
      confirmAddVacationRequest_def Let_def split_beta)

lemma removeVacationRequest_db:
  "snd (removeVacationRequest u date (st, d)) =
     snd (updateDoc (userId u)
            (SetVacationDates (filter (\<lambda>x. x \<noteq> date) (orEmptyList (vacationDates u)))) d)"
  by (simp add: removeVacationRequest_def handleRemoveVacationRequest_def modalConfirmEV_def
      confirmRemoveVacationRequest_def Let_def split_beta)

lemma addVacation_db:
  assumes "find (\<lambda>e. userId e = i) myTeam = Some u"
  shows "snd (addVacation myTeam i date (st, d)) =
     (if i = [] \<or> date = [] \<or> date \<in> set (orEmptyList (vacationDates u)) then d
      else snd (updateDoc (userId u)
                  (SetVacationDates (sort (orEmptyList (vacationDates u) @ [date]))) d))"
  using assms
  by (simp add: addVacation_def handleAddVacation_def modalConfirmMV_def
      confirmAddVacation_def Let_def split_beta split: sum.split)

lemma removeVacation_db:
  "snd (removeVacation u date (st, d)) =
     snd (updateDoc (userId u)
            (SetVacationDates (filter (\<lambda>x. x \<noteq> date) (orEmptyList (vacationDates u)))) d)"
  by (simp add: removeVacation_def handleRemoveVacation_def modalConfirmMV_def
      confirmRemoveVacation_def Let_def split_beta split: sum.split)

lemma sorted_distinct_add:
  fixes ds :: "string list"
  assumes "distinct ds" and "date \<notin> set ds"
  shows "sorted (sort (ds @ [date])) \<and> distinct (sort (ds @ [date]))"
  using assms by simp

lemma sorted_distinct_remove:
  fixes ds :: "string list"
  assumes "sorted ds" and "distinct ds"
  shows "sorted (filter (\<lambda>x. x \<noteq> date) ds) \<and> distinct (filter (\<lambda>x. x \<noteq> date) ds)"
  using assms by (simp add: sorted_wrt_filter)

lemma add_then_remove_list:
  fixes ds :: "string list"
  assumes "sorted ds" and "date \<notin> set ds"
  shows "filter (\<lambda>x. x \<noteq> date) (sort (ds @ [date])) = ds"
proof -
  have "filter (\<lambda>x. x \<noteq> date) (sort (ds @ [date])) = sort (filter (\<lambda>x. x \<noteq> date) (ds @ [date]))"
    by (simp only: filter_sort)
  also have "filter (\<lambda>x. x \<noteq> date) (ds @ [date]) = ds"
    using assms(2) by (simp add: filter_id_conv) blast
  also have "sort ds = ds" using assms(1) by (rule sorted_sort_id)
  finally show ?thesis .
qed

text \<open>
  C4. The component holds a user whose vacation dates are ascending and without
  duplicates, and the store holds the same sequence for that user. After each of the
  vacation actions (the engineer's own add and remove, the manager's add and remove,
  each from the click to the answer of the modal) the sequence the store holds is
  ascending and without duplicates; so is the sequence of the form data after the
  form's add and remove.
\<close>

theorem vacation_mutators_keep_invariant:
  assumes srt: "sorted ds" and dst: "distinct ds"
    and held: "orEmptyList (vacationDates u) = ds"
    and stored: "storedVacationDates d (userId u) = ds"
    and closed: "\<not> isModalOpen st"
    and found: "find (\<lambda>e. userId e = userId u) myTeam = Some u"
    and form: "vacationDates formData = Some ds"
  shows "sorted (storedVacationDates (snd (addVacationRequest u date (st, d))) (userId u))
       \<and> distinct (storedVacationDates (snd (addVacationRequest u date (st, d))) (userId u))
       \<and> sorted (storedVacationDates (snd (removeVacationRequest u date (st, d))) (userId u))
       \<and> distinct (storedVacationDates (snd (removeVacationRequest u date (st, d))) (userId u))
       \<and> sorted (storedVacationDates (snd (addVacation myTeam (userId u) date (st, d))) (userId u))
       \<and> distinct (storedVacationDates (snd (addVacation myTeam (userId u) date (st, d))) (userId u))
       \<and> sorted (storedVacationDates (snd (removeVacation u date (st, d))) (userId u))
       \<and> distinct (storedVacationDates (snd (removeVacation u date (st, d))) (userId u))
       \<and> (\<exists>formData'. handleAddVacationDate date formData = Inr formData'
            \<and> sorted (orEmptyList (vacationDates formData'))
            \<and> distinct (orEmptyList (vacationDates formData')))
       \<and> (\<exists>formData'. handleRemoveVacationDate date formData = Inr formData'
            \<and> sorted (orEmptyList (vacationDates formData'))
            \<and> distinct (orEmptyList (vacationDates formData')))"
proof -
  have old: "sorted (storedVacationDates d (userId u))" "distinct (storedVacationDates d (userId u))"
    using srt dst stored by simp_all
  have rem: "sorted (filter (\<lambda>x. x \<noteq> date) ds)" "distinct (filter (\<lambda>x. x \<noteq> date) ds)"
    using sorted_distinct_remove [OF srt dst] by simp_all
  have add: "date \<notin> set ds \<Longrightarrow> sorted (sort (ds @ [date])) \<and> distinct (sort (ds @ [date]))"
    using sorted_distinct_add [OF dst] by simp
  have a1: "sorted (storedVacationDates (snd (addVacationRequest u date (st, d))) (userId u))
          \<and> distinct (storedVacationDates (snd (addVacationRequest u date (st, d))) (userId u))"
    using old add by (simp add: addVacationRequest_db [OF closed] updateDoc_stored held)
  have a2: "sorted (storedVacationDates (snd (removeVacationRequest u date (st, d))) (userId u))
          \<and> distinct (storedVacationDates (snd (removeVacationRequest u date (st, d))) (userId u))"
    using old rem by (simp add: removeVacationRequest_db updateDoc_stored held)
  have a3: "sorted (storedVacationDates (snd (addVacation myTeam (userId u) date (st, d))) (userId u))
          \<and> distinct (storedVacationDates (snd (addVacation myTeam (userId u) date (st, d))) (userId u))"
    using old add by (simp add: addVacation_db [OF found] updateDoc_stored held)
  have a4: "sorted (storedVacationDates (snd (removeVacation u date (st, d))) (userId u))
          \<and> distinct (storedVacationDates (snd (removeVacation u date (st, d))) (userId u))"
    using old rem by (simp add: removeVacation_db updateDoc_stored held)
  have a5: "\<exists>formData'. handleAddVacationDate date formData = Inr formData'
            \<and> sorted (orEmptyList (vacationDates formData'))
            \<and> distinct (orEmptyList (vacationDates formData'))"
    using srt dst add by (simp add: handleAddVacationDate_def form orEmptyList_def)
  have a6: "\<exists>formData'. handleRemoveVacationDate date formData = Inr formData'
            \<and> sorted (orEmptyList (vacationDates formData'))
            \<and> distinct (orEmptyList (vacationDates formData'))"
    using rem by (simp add: handleRemoveVacationDate_def form orEmptyList_def)
  from a1 a2 a3 a4 a5 a6 show ?thesis by blast
qed

theorem vacation_mutators_keep_invariant_witness:
  "sorted [''2024-03-01'', ''2024-05-10''] \<and> distinct [''2024-03-01'', ''2024-05-10'']
   \<and> \<not> isModalOpen initialState
   \<and> sorted (storedVacationDates (snd (addVacationRequest
        (withId ''u1'' ((exampleData ''Engineer'' ''Eve'')\<lparr>vacationDates := Some [''2024-03-01'', ''2024-05-10'']\<rparr>))
        ''2024-01-01''
        (initialState,
         singleDoc ''u1'' ((exampleData ''Engineer'' ''Eve'')\<lparr>vacationDates := Some [''2024-03-01'', ''2024-05-10'']\<rparr>)))) ''u1'')
   \<and> storedVacationDates (snd (addVacationRequest
        (withId ''u1'' ((exampleData ''Engineer'' ''Eve'')\<lparr>vacationDates := Some [''2024-03-01'', ''2024-05-10'']\<rparr>))
        ''2024-01-01''
        (initialState,
         singleDoc ''u1'' ((exampleData ''Engineer'' ''Eve'')\<lparr>vacationDates := Some [''2024-03-01'', ''2024-05-10'']\<rparr>)))) ''u1''
      = [''2024-01-01'', ''2024-03-01'', ''2024-05-10'']"
proof -
  let ?ds = "[''2024-03-01'', ''2024-05-10'']"
  let ?doc = "(exampleData ''Engineer'' ''Eve'')\<lparr>vacationDates := Some ?ds\<rparr>"
  let ?u = "withId ''u1'' ?doc"
  let ?d = "singleDoc ''u1'' ?doc"
  have h1: "sorted ?ds" by simp
  have h2: "distinct ?ds" by simp
  have h3: "orEmptyList (vacationDates ?u) = ?ds"
    by (simp add: withId_def exampleData_def orEmptyList_def)
  have i: "userId ?u = ''u1''" by (simp add: withId_def)
  have h4: "storedVacationDates ?d (userId ?u) = ?ds"
    by (simp add: i storedVacationDates_def singleDoc_def orEmptyList_def)
  have h5: "\<not> isModalOpen initialState" by (simp add: initialState_def)
  have h6: "find (\<lambda>e. userId e = userId ?u) [?u] = Some ?u" by simp
  have h7: "vacationDates (initialFormData (Some ?u)) = Some ?ds"
    by (simp add: initialFormData_def withId_def exampleData_def orEmptyList_def)
  have e: "storedVacationDates (snd (addVacationRequest ?u ''2024-01-01'' (initialState, ?d))) ''u1''
      = [''2024-01-01'', ''2024-03-01'', ''2024-05-10'']"
    by (simp add: addVacationRequest_db [OF h5] h3 i updateDoc_stored singleDoc_def)
  from vacation_mutators_keep_invariant [OF h1 h2 h3 h4 h5 h6 h7, of "''2024-01-01''"]
  have "sorted (storedVacationDates (snd (addVacationRequest ?u ''2024-01-01'' (initialState, ?d))) (userId ?u))"
    by blast
  then show ?thesis using h1 h2 h5 e by (simp only: i simp_thms)
qed

text \<open>
  C5. The date is already among the vacation dates of the record the component holds
  (and the page is not covered by an open modal). The add action, from the click to the
  answer of the modal, leaves the store as it is: no write is issued and the stored
  sequence is the same list. For a date that is not the empty string the handler opens
  the modal with the "already has vacation" text and no action to confirm. This holds
  for the engineer's own add and for the manager's.
\<close>

theorem add_present_date_is_informational:
  assumes present: "date \<in> set (orEmptyList (vacationDates u))"
    and closed: "\<not> isModalOpen st"
    and found: "find (\<lambda>e. userId e = userId u) myTeam = Some u"
  shows "snd (addVacationRequest u date (st, d)) = d
       \<and> snd (addVacation myTeam (userId u) date (st, d)) = d
       \<and> (date \<noteq> [] \<longrightarrow>
            handleAddVacationRequest u (st\<lparr>newVacationDate := date\<rparr>) =
              st\<lparr>newVacationDate := date, modalMessage := AlreadyHaveVacation date,
                 modalAction := None, isModalOpen := True\<rparr>)
       \<and> (date \<noteq> [] \<and> userId u \<noteq> [] \<longrightarrow>
            handleAddVacation myTeam (st\<lparr>selectedEngineerId := userId u, newVacationDate := date\<rparr>) =
              st\<lparr>selectedEngineerId := userId u, newVacationDate := date,
                 modalMessage := EngineerAlreadyHasVacation (name u) date,
                 modalAction := None, isModalOpen := True\<rparr>)"
proof (intro conjI impI)
  show "snd (addVacationRequest u date (st, d)) = d"
    using present by (simp add: addVacationRequest_db [OF closed])
  show "snd (addVacation myTeam (userId u) date (st, d)) = d"
    using present by (simp add: addVacation_db [OF found])
next
  assume "date \<noteq> []"
  then show "handleAddVacationRequest u (st\<lparr>newVacationDate := date\<rparr>) =
              st\<lparr>newVacationDate := date, modalMessage := AlreadyHaveVacation date,
                 modalAction := None, isModalOpen := True\<rparr>"
    using present by (simp add: handleAddVacationRequest_def)
next
  assume "date \<noteq> [] \<and> userId u \<noteq> []"
  then show "handleAddVacation myTeam (st\<lparr>selectedEngineerId := userId u, newVacationDate := date\<rparr>) =
              st\<lparr>selectedEngineerId := userId u, newVacationDate := date,
                 modalMessage := EngineerAlreadyHasVacation (name u) date,
                 modalAction := None, isModalOpen := True\<rparr>"
    using present found by (simp add: handleAddVacation_def)
qed

theorem add_present_date_is_informational_witness:
  "''2024-05-10'' \<in> set (orEmptyList (vacationDates
        (withId ''u1'' ((exampleData ''Engineer'' ''Eve'')\<lparr>vacationDates := Some [''2024-03-01'', ''2024-05-10'']\<rparr>))))
   \<and> \<not> isModalOpen initialState
   \<and> snd (addVacationRequest
        (withId ''u1'' ((exampleData ''Engineer'' ''Eve'')\<lparr>vacationDates := Some [''2024-03-01'', ''2024-05-10'']\<rparr>))
        ''2024-05-10''
        (initialState,
         singleDoc ''u1'' ((exampleData ''Engineer'' ''Eve'')\<lparr>vacationDates := Some [''2024-03-01'', ''2024-05-10'']\<rparr>)))
      = singleDoc ''u1'' ((exampleData ''Engineer'' ''Eve'')\<lparr>vacationDates := Some [''2024-03-01'', ''2024-05-10'']\<rparr>)
   \<and> modalAction (handleAddVacationRequest
        (withId ''u1'' ((exampleData ''Engineer'' ''Eve'')\<lparr>vacationDates := Some [''2024-03-01'', ''2024-05-10'']\<rparr>))
        (initialState\<lparr>newVacationDate := ''2024-05-10''\<rparr>)) = None"
proof -
  let ?ds = "[''2024-03-01'', ''2024-05-10'']"
  let ?doc = "(exampleData ''Engineer'' ''Eve'')\<lparr>vacationDates := Some ?ds\<rparr>"
  let ?u = "withId ''u1'' ?doc"
  let ?d = "singleDoc ''u1'' ?doc"
  have h1: "''2024-05-10'' \<in> set (orEmptyList (vacationDates ?u))"
    by (simp add: withId_def exampleData_def orEmptyList_def)
  have h2: "\<not> isModalOpen initialState" by (simp add: initialState_def)
  have h3: "find (\<lambda>e. userId e = userId ?u) [?u] = Some ?u" by simp
  have ne: "''2024-05-10'' \<noteq> []" by simp
  from add_present_date_is_informational [OF h1 h2 h3, of ?d] ne
  have "snd (addVacationRequest ?u ''2024-05-10'' (initialState, ?d)) = ?d"
    and "handleAddVacationRequest ?u (initialState\<lparr>newVacationDate := ''2024-05-10''\<rparr>) =
           initialState\<lparr>newVacationDate := ''2024-05-10'',
              modalMessage := AlreadyHaveVacation ''2024-05-10'',
              modalAction := None, isModalOpen := True\<rparr>"
    by blast+
  then show ?thesis using h1 h2 by simp
qed

text \<open>
  C6, as stated, fails for a sequence that is not ascending: the stored sequence
  \<open>2024-05-10, 2024-03-01\<close> has no duplicates and does not contain \<open>2024-01-01\<close>;
  the add stores the three dates in ascending order, and the remove, by the view of
  the record as stored after the add, stores \<open>2024-03-01, 2024-05-10\<close>, which is not
  the sequence before.
\<close>

theorem add_then_remove_unsorted_counterexample:
  "distinct [''2024-05-10'', ''2024-03-01'']
   \<and> ''2024-01-01'' \<notin> set [''2024-05-10'', ''2024-03-01'']
   \<and> storedVacationDates
        (singleDoc ''u1'' ((exampleData ''Engineer'' ''Eve'')\<lparr>vacationDates := Some [''2024-05-10'', ''2024-03-01'']\<rparr>))
        ''u1'' = [''2024-05-10'', ''2024-03-01'']
   \<and> docs (snd (addVacationRequest
        (withId ''u1'' ((exampleData ''Engineer'' ''Eve'')\<lparr>vacationDates := Some [''2024-05-10'', ''2024-03-01'']\<rparr>))
        ''2024-01-01''
        (initialState,
         singleDoc ''u1'' ((exampleData ''Engineer'' ''Eve'')\<lparr>vacationDates := Some [''2024-05-10'', ''2024-03-01'']\<rparr>))))
        ''u1''
      = Some ((exampleData ''Engineer'' ''Eve'')\<lparr>vacationDates := Some [''2024-01-01'', ''2024-03-01'', ''2024-05-10'']\<rparr>)
   \<and> storedVacationDates (snd (removeVacationRequest
        (withId ''u1'' ((exampleData ''Engineer'' ''Eve'')\<lparr>vacationDates := Some [''2024-01-01'', ''2024-03-01'', ''2024-05-10'']\<rparr>))
        ''2024-01-01''
        (addVacationRequest
          (withId ''u1'' ((exampleData ''Engineer'' ''Eve'')\<lparr>vacationDates := Some [''2024-05-10'', ''2024-03-01'']\<rparr>))
          ''2024-01-01''
          (initialState,
           singleDoc ''u1'' ((exampleData ''Engineer'' ''Eve'')\<lparr>vacationDates := Some [''2024-05-10'', ''2024-03-01'']\<rparr>)))))
        ''u1''
      = [''2024-03-01'', ''2024-05-10'']
   \<and> [''2024-03-01'', ''2024-05-10''] \<noteq> [''2024-05-10'', ''2024-03-01'']"
proof -
  let ?doc = "(exampleData ''Engineer'' ''Eve'')\<lparr>vacationDates := Some [''2024-05-10'', ''2024-03-01'']\<rparr>"
  let ?u = "withId ''u1'' ?doc"
  let ?u1 = "withId ''u1'' ((exampleData ''Engineer'' ''Eve'')\<lparr>vacationDates := Some [''2024-01-01'', ''2024-03-01'', ''2024-05-10'']\<rparr>)"
  let ?d = "singleDoc ''u1'' ?doc"
  have c: "\<not> isModalOpen initialState" by (simp add: initialState_def)
  have u: "orEmptyList (vacationDates ?u) = [''2024-05-10'', ''2024-03-01'']" "userId ?u = ''u1''"
    by (simp_all add: withId_def exampleData_def orEmptyList_def)
  have u1: "orEmptyList (vacationDates ?u1) = [''2024-01-01'', ''2024-03-01'', ''2024-05-10'']"
      "userId ?u1 = ''u1''"
    by (simp_all add: withId_def exampleData_def orEmptyList_def)
  have s0: "storedVacationDates ?d ''u1'' = [''2024-05-10'', ''2024-03-01'']"
    by (simp add: storedVacationDates_def singleDoc_def orEmptyList_def exampleData_def)
  have s1: "docs (snd (addVacationRequest ?u ''2024-01-01'' (initialState, ?d))) ''u1''
      = Some ((exampleData ''Engineer'' ''Eve'')\<lparr>vacationDates := Some [''2024-01-01'', ''2024-03-01'', ''2024-05-10'']\<rparr>)"
    by (simp add: addVacationRequest_db [OF c] u updateDoc_docs singleDoc_def)
  have s2: "storedVacationDates (snd (removeVacationRequest ?u1 ''2024-01-01''
              (addVacationRequest ?u ''2024-01-01'' (initialState, ?d)))) ''u1''
      = [''2024-03-01'', ''2024-05-10'']"
    using s1
    by (cases "addVacationRequest ?u ''2024-01-01'' (initialState, ?d)")
       (simp add: removeVacationRequest_db u1 updateDoc_stored)
  show ?thesis using s0 s1 s2 by simp
qed

text \<open>
  C6, amended. The stored sequence is ascending, has no duplicates and does not
  contain the date. The add action, followed by the remove action of the view that
  holds the record as stored after the add, leaves the store with the sequence it held
  before, in the same order.
\<close>

theorem add_then_remove_round_trip:
  assumes srt: "sorted ds" and dst: "distinct ds" and fresh: "date \<notin> set ds"
    and held: "orEmptyList (vacationDates u) = ds"
    and stored: "storedVacationDates d (userId u) = ds"
    and exists: "docs d (userId u) \<noteq> None"
    and closed: "\<not> isModalOpen st"
    and added: "addVacationRequest u date (st, d) = (st1, d1)"
    and same_id: "userId u1 = userId u"
    and reloaded: "orEmptyList (vacationDates u1) = storedVacationDates d1 (userId u)"
  shows "storedVacationDates (snd (removeVacationRequest u1 date (st1, d1))) (userId u) = ds"
proof -
  have d1: "d1 = snd (addVacationRequest u date (st, d))" using added by simp
  have ex1: "docs d1 (userId u) \<noteq> None"
    using exists by (auto simp add: d1 addVacationRequest_db [OF closed] updateDoc_docs)
  have s1: "storedVacationDates d1 (userId u) = (if date = [] then ds else sort (ds @ [date]))"
    using fresh exists stored by (simp add: d1 addVacationRequest_db [OF closed] held updateDoc_stored)
  have "storedVacationDates (snd (removeVacationRequest u1 date (st1, d1))) (userId u)
          = filter (\<lambda>x. x \<noteq> date) (storedVacationDates d1 (userId u))"
    using ex1 by (simp add: removeVacationRequest_db same_id reloaded updateDoc_stored)
  also have "\<dots> = ds"
  proof (cases "date = []")
    case True
    then show ?thesis using fresh by (simp add: s1 filter_id_conv) blast
  next
    case False
    then show ?thesis using add_then_remove_list [OF srt fresh] by (simp add: s1)
  qed
  finally show ?thesis .
qed

theorem add_then_remove_round_trip_witness:
  "sorted [''2024-03-01'', ''2024-05-10''] \<and> distinct [''2024-03-01'', ''2024-05-10'']
   \<and> ''2024-01-01'' \<notin> set [''2024-03-01'', ''2024-05-10'']
   \<and> \<not> isModalOpen initialState
   \<and> storedVacationDates (snd (addVacationRequest
        (withId ''u1'' ((exampleData ''Engineer'' ''Eve'')\<lparr>vacationDates := Some [''2024-03-01'', ''2024-05-10'']\<rparr>))
        ''2024-01-01''
        (initialState,
         singleDoc ''u1'' ((exampleData ''Engineer'' ''Eve'')\<lparr>vacationDates := Some [''2024-03-01'', ''2024-05-10'']\<rparr>))))
        ''u1''
      = [''2024-01-01'', ''2024-03-01'', ''2024-05-10'']
   \<and> storedVacationDates (snd (removeVacationRequest
        (withId ''u1'' ((exampleData ''Engineer'' ''Eve'')\<lparr>vacationDates := Some [''2024-01-01'', ''2024-03-01'', ''2024-05-10'']\<rparr>))
        ''2024-01-01''
        (addVacationRequest
          (withId ''u1'' ((exampleData ''Engineer'' ''Eve'')\<lparr>vacationDates := Some [''2024-03-01'', ''2024-05-10'']\<rparr>))
          ''2024-01-01''
          (initialState,
           singleDoc ''u1'' ((exampleData ''Engineer'' ''Eve'')\<lparr>vacationDates := Some [''2024-03-01'', ''2024-05-10'']\<rparr>)))))
        ''u1''
      = [''2024-03-01'', ''2024-05-10'']"
proof -
  let ?ds = "[''2024-03-01'', ''2024-05-10'']"
  let ?doc = "(exampleData ''Engineer'' ''Eve'')\<lparr>vacationDates := Some ?ds\<rparr>"
  let ?u = "withId ''u1'' ?doc"
  let ?u1 = "withId ''u1'' ((exampleData ''Engineer'' ''Eve'')\<lparr>vacationDates := Some [''2024-01-01'', ''2024-03-01'', ''2024-05-10'']\<rparr>)"
  let ?d = "singleDoc ''u1'' ?doc"
  obtain st1 d1 where added: "addVacationRequest ?u ''2024-01-01'' (initialState, ?d) = (st1, d1)"
    by (cases "addVacationRequest ?u ''2024-01-01'' (initialState, ?d)")
  have h1: "sorted ?ds" by simp
  have h2: "distinct ?ds" by simp
  have h3: "''2024-01-01'' \<notin> set ?ds" by simp
  have i: "userId ?u = ''u1''" "userId ?u1 = ''u1''" by (simp_all add: withId_def)
  have h4: "orEmptyList (vacationDates ?u) = ?ds"
    by (simp add: withId_def exampleData_def orEmptyList_def)
  have h5: "storedVacationDates ?d (userId ?u) = ?ds"
    by (simp add: i storedVacationDates_def singleDoc_def orEmptyList_def)
  have h6: "docs ?d (userId ?u) \<noteq> None" by (simp add: i singleDoc_def)
  have h7: "\<not> isModalOpen initialState" by (simp add: initialState_def)
  have h8: "userId ?u1 = userId ?u" by (simp add: i)
  have d1: "d1 = snd (addVacationRequest ?u ''2024-01-01'' (initialState, ?d))"
    by (simp add: added)
  have s1: "storedVacationDates d1 ''u1'' = [''2024-01-01'', ''2024-03-01'', ''2024-05-10'']"
    unfolding d1
    by (simp add: addVacationRequest_db [OF h7] h4 i updateDoc_stored singleDoc_def)
  have h9: "orEmptyList (vacationDates ?u1) = storedVacationDates d1 (userId ?u)"
    by (simp add: i s1) (simp add: withId_def orEmptyList_def)
  from add_then_remove_round_trip [OF h1 h2 h3 h4 h5 h6 h7 added h8 h9]
  have "storedVacationDates (snd (removeVacationRequest ?u1 ''2024-01-01'' (st1, d1))) ''u1'' = ?ds"
    by (simp add: i)
  then show ?thesis using h1 h2 h3 h7 s1 by (simp add: added)
qed


section \<open>Properties of the role groups, the router and the session\<close>

text \<open>
  C7, as stated, fails: the roster view has no bucket for each of the four roles. An
  Admin record is in neither of its two role groups, and an Engineer and a Viewer are
  in the same group. An Engineer without a manager is both in that group and among
  the rows of the table of other users.
\<close>

theorem role_groups_counterexample:
  "managers [withId ''a1'' (exampleData ''Admin'' ''Ada'')] = []
   \<and> engineersAndViewers [withId ''a1'' (exampleData ''Admin'' ''Ada'')] = []
   \<and> engineersAndViewers
        [withId ''e1'' (exampleData ''Engineer'' ''Eve''), withId ''v1'' (exampleData ''Viewer'' ''Vic'')]
      = [withId ''e1'' (exampleData ''Engineer'' ''Eve''), withId ''v1'' (exampleData ''Viewer'' ''Vic'')]
   \<and> role (withId ''e1'' (exampleData ''Engineer'' ''Eve''))
        \<noteq> role (withId ''v1'' (exampleData ''Viewer'' ''Vic''))
   \<and> otherUsers [withId ''e1'' (exampleData ''Engineer'' ''Eve'')]
      = [withId ''e1'' (exampleData ''Engineer'' ''Eve'')]"
  by (simp add: managers_def engineersAndViewers_def otherUsers_def orElse_def withId_def
      exampleData_def)

text \<open>
  C7, amended. The roster view groups users by role into two groups, \<open>managers\<close>
  (role Manager) and \<open>engineersAndViewers\<close> (role Engineer or Viewer). The groups are
  disjoint, every member has a role of its group, and every input record is, as often
  as it occurs in the input, in exactly one of \<open>managers\<close>, \<open>engineersAndViewers\<close> and
  the records of any other role (Admin included), which are in neither group.
\<close>

theorem role_groups_of_roster:
  "set (managers us) \<inter> set (engineersAndViewers us) = {}
   \<and> (\<forall>u \<in> set (managers us). role u = Some ''Manager'')
   \<and> (\<forall>u \<in> set (engineersAndViewers us). role u = Some ''Engineer'' \<or> role u = Some ''Viewer'')
   \<and> mset (managers us) + mset (engineersAndViewers us)
        + mset (filter (\<lambda>u. role u \<noteq> Some ''Manager'' \<and> role u \<noteq> Some ''Engineer''
                            \<and> role u \<noteq> Some ''Viewer'') us)
      = mset us
   \<and> (\<forall>u \<in> set us. role u \<noteq> Some ''Manager'' \<and> role u \<noteq> Some ''Engineer'' \<and> role u \<noteq> Some ''Viewer''
         \<longrightarrow> u \<notin> set (managers us) \<and> u \<notin> set (engineersAndViewers us))"
proof (intro conjI)
  show "set (managers us) \<inter> set (engineersAndViewers us) = {}"
    by (auto simp add: managers_def engineersAndViewers_def)
  show "\<forall>u \<in> set (managers us). role u = Some ''Manager''"
    by (simp add: managers_def)
  show "\<forall>u \<in> set (engineersAndViewers us). role u = Some ''Engineer'' \<or> role u = Some ''Viewer''"
    by (simp add: engineersAndViewers_def)
  show "mset (managers us) + mset (engineersAndViewers us)
        + mset (filter (\<lambda>u. role u \<noteq> Some ''Manager'' \<and> role u \<noteq> Some ''Engineer''
                            \<and> role u \<noteq> Some ''Viewer'') us)
      = mset us"
    unfolding managers_def engineersAndViewers_def
    by (induction us) auto
  show "\<forall>u \<in> set us. role u \<noteq> Some ''Manager'' \<and> role u \<noteq> Some ''Engineer'' \<and> role u \<noteq> Some ''Viewer''
         \<longrightarrow> u \<notin> set (managers us) \<and> u \<notin> set (engineersAndViewers us)"
    by (simp add: managers_def engineersAndViewers_def)
qed

theorem role_groups_of_roster_witness:
  "withId ''m1'' (exampleData ''Manager'' ''Max'')
     \<in> set (managers [withId ''a1'' (exampleData ''Admin'' ''Ada''),
                       withId ''m1'' (exampleData ''Manager'' ''Max''),
                       withId ''e1'' (exampleData ''Engineer'' ''Eve'')])
   \<and> role (withId ''m1'' (exampleData ''Manager'' ''Max'')) = Some ''Manager''
   \<and> withId ''a1'' (exampleData ''Admin'' ''Ada'')
     \<notin> set (engineersAndViewers [withId ''a1'' (exampleData ''Admin'' ''Ada''),
                       withId ''m1'' (exampleData ''Manager'' ''Max''),
                       withId ''e1'' (exampleData ''Engineer'' ''Eve'')])"
proof -
  let ?a = "withId ''a1'' (exampleData ''Admin'' ''Ada'')"
  let ?m = "withId ''m1'' (exampleData ''Manager'' ''Max'')"
  let ?e = "withId ''e1'' (exampleData ''Engineer'' ''Eve'')"
  have m: "?m \<in> set (managers [?a, ?m, ?e])"
    by (simp add: managers_def withId_def exampleData_def)
  have a: "?a \<in> set [?a, ?m, ?e]" by simp
  have ra: "role ?a \<noteq> Some ''Manager'' \<and> role ?a \<noteq> Some ''Engineer'' \<and> role ?a \<noteq> Some ''Viewer''"
    by (simp add: withId_def exampleData_def)
  from role_groups_of_roster [of "[?a, ?m, ?e]"] m a ra
  have "role ?m = Some ''Manager''" and "?a \<notin> set (engineersAndViewers [?a, ?m, ?e])"
    by blast+
  then show ?thesis using m by simp
qed

text \<open>
  C8. The page the router renders is decided by the current user alone. Without a
  current user it is the not-signed-in page, whatever the caches hold; for a user whose
  role is Admin, Manager, Engineer or Viewer it is the dashboard of that role (which is
  handed the user and the caches); for any other role, or none, it is the
  access-denied page. The state of the router does not depend on the caches.
\<close>

theorem view_router_by_role:
  "renderView None us sk = NotSignedIn
   \<and> (role u = Some ''Admin'' \<longrightarrow> renderView (Some u) us sk = AdminView u us sk)
   \<and> (role u = Some ''Manager'' \<longrightarrow> renderView (Some u) us sk = ManagerView u us sk)
   \<and> (role u = Some ''Engineer'' \<longrightarrow> renderView (Some u) us sk = EngineerView u us sk)
   \<and> (role u = Some ''Viewer'' \<longrightarrow> renderView (Some u) us sk = ViewerView u us sk)
   \<and> (role u \<noteq> Some ''Admin'' \<and> role u \<noteq> Some ''Manager'' \<and> role u \<noteq> Some ''Engineer''
        \<and> role u \<noteq> Some ''Viewer'' \<longrightarrow> renderView (Some u) us sk = AccessDenied u)
   \<and> routerStateOf (renderView cu us sk) = routerStateOf (renderView cu us' sk')"
proof (intro conjI impI)
  show "renderView None us sk = NotSignedIn" by (simp add: renderView_def)
  show "routerStateOf (renderView cu us sk) = routerStateOf (renderView cu us' sk')"
    by (simp add: renderView_def split: option.split)
qed (simp_all add: renderView_def)

theorem view_router_by_role_witness:
  "role (withId ''c1'' (exampleData ''Contractor'' ''Cy'')) \<noteq> Some ''Admin''
   \<and> renderView (Some (withId ''c1'' (exampleData ''Contractor'' ''Cy'')))
        [withId ''a1'' (exampleData ''Admin'' ''Ada'')] []
      = AccessDenied (withId ''c1'' (exampleData ''Contractor'' ''Cy''))
   \<and> role (withId ''a1'' (exampleData ''Admin'' ''Ada'')) = Some ''Admin''
   \<and> renderView (Some (withId ''a1'' (exampleData ''Admin'' ''Ada'')))
        [withId ''a1'' (exampleData ''Admin'' ''Ada'')] []
      = AdminView (withId ''a1'' (exampleData ''Admin'' ''Ada''))
          [withId ''a1'' (exampleData ''Admin'' ''Ada'')] []"
proof -
  let ?c = "withId ''c1'' (exampleData ''Contractor'' ''Cy'')"
  let ?a = "withId ''a1'' (exampleData ''Admin'' ''Ada'')"
  have rc: "role ?c \<noteq> Some ''Admin''" "role ?c \<noteq> Some ''Manager''"
      "role ?c \<noteq> Some ''Engineer''" "role ?c \<noteq> Some ''Viewer''"
    by (simp_all add: withId_def exampleData_def)
  have ra: "role ?a = Some ''Admin''" by (simp add: withId_def exampleData_def)
  from view_router_by_role [of "[?a]" "[]" ?c] rc
  have c: "renderView (Some ?c) [?a] [] = AccessDenied ?c" by blast
  from view_router_by_role [of "[?a]" "[]" ?a] ra
  have a: "renderView (Some ?a) [?a] [] = AdminView ?a [?a] []" by blast
  show ?thesis using rc ra c a by simp
qed

text \<open>
  C9. The session's identity has no document in the store. The observer then stores
  the default profile under the identity's \<open>uid\<close>, in one \<open>setDoc\<close> call, and makes it
  the current user: role Viewer, no skills, no vacation dates, threshold and count 0,
  working hours \<open>9 AM - 5 PM\<close>, shift pattern \<open>Day Shift\<close>; the session is marked ready.
\<close>

theorem default_profile_on_first_sign_in:
  assumes missing: "getDoc (uid user) d = None"
  shows "docs (snd (onAuthStateChanged (Some user) (p, d))) (uid user) = Some (defaultUser user)
       \<and> writes (snd (onAuthStateChanged (Some user) (p, d))) =
           writes d @ [SetDoc (uid user) (defaultUser user)]
       \<and> currentUser (fst (onAuthStateChanged (Some user) (p, d))) =
           Some (withId (uid user) (defaultUser user))
       \<and> isAuthReady (fst (onAuthStateChanged (Some user) (p, d)))
       \<and> role (defaultUser user) = Some ''Viewer''
       \<and> skills (defaultUser user) = Some []
       \<and> vacationDates (defaultUser user) = Some []
       \<and> srThreshold (defaultUser user) = Some 0
       \<and> currentSrCount (defaultUser user) = Some 0
       \<and> workingHours (defaultUser user) = Some ''9 AM - 5 PM''
       \<and> shiftPattern (defaultUser user) = Some ''Day Shift''"
proof -
  have step: "onAuthStateChanged (Some user) (p, d) =
      (p\<lparr>currentUser := Some (mergeUser user (defaultUser user)), isAuthReady := True\<rparr>,
       setDoc (uid user) (defaultUser user) d)"
    using missing by (simp add: onAuthStateChanged_def Let_def)
  have merged: "mergeUser user (defaultUser user) = withId (uid user) (defaultUser user)"
    by (simp add: mergeUser_def defaultUser_def withId_def)
  show ?thesis
    by (simp add: step merged setDoc_def) (simp add: defaultUser_def)
qed

theorem default_profile_on_first_sign_in_witness:
  "getDoc (uid \<lparr>uid = ''abcdefgh'', authEmail = None\<rparr>) \<lparr>docs = Map.empty, writes = []\<rparr> = None
   \<and> docs (snd (onAuthStateChanged (Some \<lparr>uid = ''abcdefgh'', authEmail = None\<rparr>)
        (\<lparr>currentUser = None, isAuthReady = False\<rparr>, \<lparr>docs = Map.empty, writes = []\<rparr>))) ''abcdefgh''
      = Some \<lparr>name = Some ''Anonymous User abcde'', email = Some ''abcdefgh@example.com'',
          role = Some ''Viewer'', managerId = None, workingHours = Some ''9 AM - 5 PM'',
          shiftPattern = Some ''Day Shift'', vacationDates = Some [], skills = Some [],
          srThreshold = Some 0, currentSrCount = Some 0\<rparr>"
proof -
  let ?user = "\<lparr>uid = ''abcdefgh'', authEmail = None\<rparr>"
  let ?d = "\<lparr>docs = Map.empty, writes = []\<rparr>"
  have h: "getDoc (uid ?user) ?d = None" by (simp add: getDoc_def)
  from default_profile_on_first_sign_in [OF h, of "\<lparr>currentUser = None, isAuthReady = False\<rparr>"]
  have "docs (snd (onAuthStateChanged (Some ?user) (\<lparr>currentUser = None, isAuthReady = False\<rparr>, ?d)))
          (uid ?user) = Some (defaultUser ?user)"
    by blast
  then show ?thesis using h by (simp add: defaultUser_def orElse_def)
qed


section \<open>Properties of the users cache\<close>

lemma mset_insertBy: "mset (insertBy c x ys) = add_mset x (mset ys)"
  by (induction ys) simp_all

lemma mset_stableSort: "mset (stableSort c xs) = mset xs"
  unfolding stableSort_def by (induction xs) (simp_all add: mset_insertBy)

lemma set_insertBy: "set (insertBy c x ys) = insert x (set ys)"
  by (induction ys) auto

lemma set_stableSort: "set (stableSort c xs) = set xs"
  unfolding stableSort_def by (induction xs) (simp_all add: set_insertBy)

lemma sorted_insertBy:
  assumes total: "\<And>a b. a \<in> S \<Longrightarrow> b \<in> S \<Longrightarrow> \<not> sortCompare c a b \<le> 0 \<Longrightarrow> sortCompare c b a \<le> 0"
    and trans: "\<And>a b d. a \<in> S \<Longrightarrow> b \<in> S \<Longrightarrow> d \<in> S \<Longrightarrow>
                  sortCompare c a b \<le> 0 \<Longrightarrow> sortCompare c b d \<le> 0 \<Longrightarrow> sortCompare c a d \<le> 0"
    and "x \<in> S" and "set ys \<subseteq> S"
    and "sorted_wrt (\<lambda>a b. sortCompare c a b \<le> 0) ys"
  shows "sorted_wrt (\<lambda>a b. sortCompare c a b \<le> 0) (insertBy c x ys)"
  using assms(4,5)
proof (induction ys)
  case Nil
  then show ?case by simp
next
  case (Cons y ys)
  show ?case
  proof (cases "sortCompare c x y \<le> 0")
    case True
    have "sortCompare c x z \<le> 0" if "z \<in> set ys" for z
      using trans [of x y z] True that Cons.prems \<open>x \<in> S\<close> by auto
    then show ?thesis using True Cons.prems by simp
  next
    case False
    have "sortCompare c y x \<le> 0"
      using total [of x y] False Cons.prems \<open>x \<in> S\<close> by simp
    then show ?thesis using False Cons by (simp add: set_insertBy)
  qed
qed

lemma sorted_stableSort:
  assumes total: "\<And>a b. a \<in> S \<Longrightarrow> b \<in> S \<Longrightarrow> \<not> sortCompare c a b \<le> 0 \<Longrightarrow> sortCompare c b a \<le> 0"
    and trans: "\<And>a b d. a \<in> S \<Longrightarrow> b \<in> S \<Longrightarrow> d \<in> S \<Longrightarrow>
                  sortCompare c a b \<le> 0 \<Longrightarrow> sortCompare c b d \<le> 0 \<Longrightarrow> sortCompare c a d \<le> 0"
    and "set xs \<subseteq> S"
  shows "sorted_wrt (\<lambda>a b. sortCompare c a b \<le> 0) (stableSort c xs)"
  using assms(3)
proof (induction xs)
  case Nil
  then show ?case by (simp add: stableSort_def)
next
  case (Cons x xs)
  have "sorted_wrt (\<lambda>a b. sortCompare c a b \<le> 0) (insertBy c x (stableSort c xs))"
  proof (rule sorted_insertBy [where S = S])
    show "x \<in> S" using Cons.prems by simp
    show "set (stableSort c xs) \<subseteq> S" using Cons.prems by (simp add: set_stableSort)
    show "sorted_wrt (\<lambda>a b. sortCompare c a b \<le> 0) (stableSort c xs)"
      using Cons by simp
  qed (fact total trans)+
  then show ?case by (simp add: stableSort_def)
qed

lemma filter_insertBy_neg: "\<not> P x \<Longrightarrow> filter P (insertBy c x ys) = filter P ys"
  by (induction ys) simp_all

lemma filter_insertBy_pos:
  assumes "P x" and "\<And>y. y \<in> set ys \<Longrightarrow> P y \<Longrightarrow> sortCompare c x y \<le> 0"
  shows "filter P (insertBy c x ys) = x # filter P ys"
  using assms by (induction ys) auto

lemma stableSort_stable:
  assumes "\<And>a b. a \<in> set xs \<Longrightarrow> b \<in> set xs \<Longrightarrow> P a \<Longrightarrow> P b \<Longrightarrow> sortCompare c a b \<le> 0"
  shows "filter P (stableSort c xs) = filter P xs"
  using assms
proof (induction xs)
  case Nil
  then show ?case by (simp add: stableSort_def)
next
  case (Cons x xs)
  have IH: "filter P (stableSort c xs) = filter P xs"
    using Cons by simp
  have step: "stableSort c (x # xs) = insertBy c x (stableSort c xs)"
    by (simp add: stableSort_def)
  show ?case
  proof (cases "P x")
    case True
    have "filter P (insertBy c x (stableSort c xs)) = x # filter P (stableSort c xs)"
      using True Cons.prems by (intro filter_insertBy_pos) (simp_all add: set_stableSort)
    then show ?thesis using True by (simp add: step IH)
  next
    case False
    then show ?thesis by (simp add: step IH filter_insertBy_neg)
  qed
qed

lemma sortCompare_ranked:
  assumes "roleOrder (role a) \<noteq> None" and "roleOrder (role b) \<noteq> None"
  shows "sortCompare (compareUsers lc) a b \<le> 0 \<longleftrightarrow> cacheOrder lc a b"
  using assms by (auto simp add: sortCompare_def compareUsers_def cacheOrder_def)

lemma sortCompare_same_role:
  assumes "role a = role b"
  shows "sortCompare (compareUsers lc) a b = lc (orElse (name a) []) (orElse (name b) [])"
  using assms by (simp add: sortCompare_def compareUsers_def)

lemma cacheOrder_total:
  assumes sym: "\<And>s t. (lc s t < 0) = (0 < lc t s)"
    and "roleOrder (role a) \<noteq> None" and "roleOrder (role b) \<noteq> None"
    and "\<not> cacheOrder lc a b"
  shows "cacheOrder lc b a"
proof -
  obtain x y where xy: "roleOrder (role a) = Some x" "roleOrder (role b) = Some y"
    using assms(2,3) by auto
  let ?na = "orElse (name a) []" and ?nb = "orElse (name b) []"
  from assms(4) xy have n: "\<not> x < y" "x = y \<longrightarrow> 0 < lc ?na ?nb"
    by (auto simp add: cacheOrder_def)
  have "x = y \<longrightarrow> lc ?nb ?na \<le> 0"
    using n(2) sym [of ?nb ?na] by auto
  then show ?thesis using n(1) xy by (auto simp add: cacheOrder_def)
qed

lemma cacheOrder_trans:
  assumes trans: "\<And>s t r. lc s t \<le> 0 \<Longrightarrow> lc t r \<le> 0 \<Longrightarrow> lc s r \<le> (0::int)"
    and "cacheOrder lc a b" and "cacheOrder lc b d"
  shows "cacheOrder lc a d"
proof -
  obtain x y z where r: "roleOrder (role a) = Some x" "roleOrder (role b) = Some y"
      "roleOrder (role d) = Some z"
    using assms(2,3) by (auto simp add: cacheOrder_def split: option.splits)
  show ?thesis
    using assms(2,3) trans [of "orElse (name a) []" "orElse (name b) []" "orElse (name d) []"]
    by (auto simp add: cacheOrder_def r)
qed

lemma localeCompare_refl:
  assumes sym: "\<And>s t. (lc s t < 0) = (0 < lc t s)"
  shows "lc s s = (0::int)"
  using sym [of s s] by linarith

lemma localeCompare_equal_sym:
  assumes sym: "\<And>s t. (lc s t < 0) = (0 < lc t s)"
    and "lc s t = (0::int)"
  shows "lc t s = 0"
  using sym [of s t] sym [of t s] assms(2) by linarith

lemma localeCompare_less_trans:
  assumes sym: "\<And>s t. (lc s t < 0) = (0 < lc t s)"
    and trans: "\<And>s t r. lc s t \<le> 0 \<Longrightarrow> lc t r \<le> 0 \<Longrightarrow> lc s r \<le> (0::int)"
    and st: "lc s t < 0" and tr: "lc t r \<le> 0"
  shows "lc s r < 0"
proof (rule ccontr)
  assume "\<not> lc s r < 0"
  moreover have "lc s r \<le> 0" using trans [of s t r] st tr by simp
  ultimately have "lc s r = 0" by simp
  then have "lc r s \<le> 0" using localeCompare_equal_sym [where lc = lc and s = s and t = r, OF sym] by simp
  then have "lc t s \<le> 0" using trans [of t r s] tr by simp
  then show False using sym [of s t] st by simp
qed

lemma localeCompare_less_trans':
  assumes sym: "\<And>s t. (lc s t < 0) = (0 < lc t s)"
    and trans: "\<And>s t r. lc s t \<le> 0 \<Longrightarrow> lc t r \<le> 0 \<Longrightarrow> lc s r \<le> (0::int)"
    and st: "lc s t \<le> 0" and tr: "lc t r < 0"
  shows "lc s r < 0"
proof (rule ccontr)
  assume "\<not> lc s r < 0"
  moreover have "lc s r \<le> 0" using trans [of s t r] st tr by simp
  ultimately have "lc s r = 0" by simp
  then have "lc r s \<le> 0" using localeCompare_equal_sym [where lc = lc and s = s and t = r, OF sym] by simp
  then have "lc r t \<le> 0" using trans [of r s t] st by simp
  then show False using sym [of t r] tr by simp
qed

text \<open>
  With a consistent name comparison, the comparison of users is consistent on every
  list of users whose roles all have a rank.
\<close>

lemma compareUsers_consistent:
  assumes sym: "\<And>s t. (lc s t < 0) = (0 < lc t s)"
    and trans: "\<And>s t r. lc s t \<le> 0 \<Longrightarrow> lc t r \<le> 0 \<Longrightarrow> lc s r \<le> 0"
    and ranked: "\<forall>u \<in> set us. roleOrder (role u) \<noteq> None"
  shows "consistentComparator (compareUsers lc) us"
proof -
  let ?n = "\<lambda>u. orElse (name u) []"
  have val: "sortCompare (compareUsers lc) a b =
      (if roleOrder (role a) \<noteq> roleOrder (role b)
       then the (roleOrder (role a)) - the (roleOrder (role b)) else lc (?n a) (?n b))"
    if "a \<in> set us" "b \<in> set us" for a b
    using that ranked by (auto simp add: sortCompare_def compareUsers_def split: option.splits)
  have inj: "the (roleOrder (role a)) = the (roleOrder (role b)) \<longleftrightarrow> roleOrder (role a) = roleOrder (role b)"
    if m: "a \<in> set us" "b \<in> set us" for a b
  proof -
    obtain x y where "roleOrder (role a) = Some x" "roleOrder (role b) = Some y"
      using m ranked by blast
    then show ?thesis by simp
  qed
  have c1: "\<forall>a \<in> set us. \<forall>b \<in> set us. compareUsers lc a b \<noteq> None"
  proof (intro ballI)
    fix a b assume m: "a \<in> set us" "b \<in> set us"
    obtain x y where "roleOrder (role a) = Some x" "roleOrder (role b) = Some y"
      using m ranked by blast
    then show "compareUsers lc a b \<noteq> None" by (simp add: compareUsers_def)
  qed
  have c2: "\<forall>a \<in> set us. sortCompare (compareUsers lc) a a = 0"
    by (simp add: val localeCompare_refl [where lc = lc, OF sym])
  have c3: "\<forall>a \<in> set us. \<forall>b \<in> set us.
      sortCompare (compareUsers lc) a b = 0 \<longrightarrow> sortCompare (compareUsers lc) b a = 0"
    using inj by (auto simp add: val localeCompare_equal_sym [where lc = lc, OF sym] split: if_splits)
  have c4: "\<forall>a \<in> set us. \<forall>b \<in> set us. \<forall>c \<in> set us.
      sortCompare (compareUsers lc) a b = 0 \<and> sortCompare (compareUsers lc) b c = 0
        \<longrightarrow> sortCompare (compareUsers lc) a c = 0"
  proof (intro ballI impI)
    fix a b c assume m: "a \<in> set us" "b \<in> set us" "c \<in> set us"
      and e: "sortCompare (compareUsers lc) a b = 0 \<and> sortCompare (compareUsers lc) b c = 0"
    from e m inj [of a b] inj [of b c]
    have r: "roleOrder (role a) = roleOrder (role b)" "roleOrder (role b) = roleOrder (role c)"
      and ab: "lc (?n a) (?n b) = 0" and bc: "lc (?n b) (?n c) = 0"
      by (auto simp add: val split: if_splits)
    have "lc (?n a) (?n c) \<le> 0" using trans [of "?n a" "?n b" "?n c"] ab bc by simp
    moreover have "lc (?n c) (?n a) \<le> 0"
      using trans [of "?n c" "?n b" "?n a"] localeCompare_equal_sym [where lc = lc, OF sym ab]
        localeCompare_equal_sym [where lc = lc, OF sym bc] by simp
    ultimately have "lc (?n a) (?n c) = 0" using sym [of "?n a" "?n c"] by linarith
    then show "sortCompare (compareUsers lc) a c = 0" using r m by (simp add: val)
  qed
  have less: "sortCompare (compareUsers lc) a c < 0"
    if m: "a \<in> set us" "b \<in> set us" "c \<in> set us"
      and l: "sortCompare (compareUsers lc) a b < 0" "sortCompare (compareUsers lc) b c < 0"
    for a b c
  proof -
    obtain x y z where r: "roleOrder (role a) = Some x" "roleOrder (role b) = Some y"
        "roleOrder (role c) = Some z"
      using m ranked by blast
    from l m have ab: "x < y \<or> (x = y \<and> lc (?n a) (?n b) < 0)"
      and bc: "y < z \<or> (y = z \<and> lc (?n b) (?n c) < 0)"
      by (auto simp add: val r split: if_splits)
    have "x < z \<or> (x = z \<and> lc (?n a) (?n c) < 0)"
      using ab bc localeCompare_less_trans [where lc = lc and s = "?n a" and t = "?n b" and r = "?n c", OF sym trans] by auto
    then show ?thesis using m by (auto simp add: val r)
  qed
  have c5: "\<forall>a \<in> set us. \<forall>b \<in> set us. \<forall>c \<in> set us.
      sortCompare (compareUsers lc) a b < 0 \<and> sortCompare (compareUsers lc) b c < 0
        \<longrightarrow> sortCompare (compareUsers lc) a c < 0"
    using less by blast
  have flip: "0 < sortCompare (compareUsers lc) a b \<longleftrightarrow> sortCompare (compareUsers lc) b a < 0"
    if m: "a \<in> set us" "b \<in> set us" for a b
  proof -
    obtain x y where r: "roleOrder (role a) = Some x" "roleOrder (role b) = Some y"
      using m ranked by blast
    show ?thesis using m sym [of "?n b" "?n a"] by (auto simp add: val r)
  qed
  have c6: "\<forall>a \<in> set us. \<forall>b \<in> set us. \<forall>c \<in> set us.
      0 < sortCompare (compareUsers lc) a b \<and> 0 < sortCompare (compareUsers lc) b c
        \<longrightarrow> 0 < sortCompare (compareUsers lc) a c"
  proof (intro ballI impI)
    fix a b c assume m: "a \<in> set us" "b \<in> set us" "c \<in> set us"
      and g: "0 < sortCompare (compareUsers lc) a b \<and> 0 < sortCompare (compareUsers lc) b c"
    then have "sortCompare (compareUsers lc) c b < 0" "sortCompare (compareUsers lc) b a < 0"
      using flip by auto
    then have "sortCompare (compareUsers lc) c a < 0" using less [of c b a] m by simp
    then show "0 < sortCompare (compareUsers lc) a c" using flip m by simp
  qed
  show ?thesis
    unfolding consistentComparator_def using c1 c2 c3 c4 c5 c6 by blast
qed

text \<open>
  For a snapshot in which every record has one of the four roles, and with a consistent
  name comparison (its sign flips with its arguments, and "not greater" is
  transitive), the cache after the snapshot is determined: it holds the records of the
  snapshot, each as often as there; any record that stands before another has the lower
  role rank or, with the same rank, a name that does not compare greater; and the
  records with the same role and equal names are in the order the snapshot had them.
\<close>

lemma ranked_snapshot_sorted_stable:
  assumes sym: "\<And>s t. (lc s t < 0) = (0 < lc t s)"
    and trans: "\<And>s t r. lc s t \<le> 0 \<Longrightarrow> lc t r \<le> 0 \<Longrightarrow> lc s r \<le> 0"
    and ranked: "\<forall>(i, d) \<in> set snapshotDocs. roleOrder (role d) \<noteq> None"
    and step: "onUsersSnapshot lc snapshotDocs c c'"
  shows "sorted_wrt (cacheOrder lc) (records c')
       \<and> mset (records c') = mset (map (\<lambda>(i, d). withId i d) snapshotDocs)
       \<and> (\<forall>x. filter (sameKeys lc x) (records c')
                = filter (sameKeys lc x) (map (\<lambda>(i, d). withId i d) snapshotDocs))
       \<and> \<not> loading c'"
proof -
  let ?us = "map (\<lambda>(i, d). withId i d) snapshotDocs"
  let ?S = "{u. roleOrder (role u) \<noteq> None}"
  have inS: "set ?us \<subseteq> ?S"
    using ranked by (auto simp add: withId_def)
  have cons: "consistentComparator (compareUsers lc) ?us"
    using inS by (intro compareUsers_consistent [where lc = lc, OF sym trans]) auto
  have res: "records c' = stableSort (compareUsers lc) ?us"
    using step cons by (simp add: onUsersSnapshot_def arraySort_def)
  have nl: "\<not> loading c'"
  proof -
    have "c' = c\<lparr>records := records c', loading := False\<rparr>"
      using step by (simp add: onUsersSnapshot_def)
    then have "loading c' = loading (c\<lparr>records := records c', loading := False\<rparr>)" by simp
    then show ?thesis by simp
  qed
  have "sorted_wrt (\<lambda>a b. sortCompare (compareUsers lc) a b \<le> 0) (stableSort (compareUsers lc) ?us)"
  proof (rule sorted_stableSort [where S = ?S])
    fix a b assume "a \<in> ?S" "b \<in> ?S" "\<not> sortCompare (compareUsers lc) a b \<le> 0"
    then show "sortCompare (compareUsers lc) b a \<le> 0"
      using cacheOrder_total [of lc a b] sym by (simp add: sortCompare_ranked)
  next
    fix a b d assume "a \<in> ?S" "b \<in> ?S" "d \<in> ?S"
      "sortCompare (compareUsers lc) a b \<le> 0" "sortCompare (compareUsers lc) b d \<le> 0"
    then show "sortCompare (compareUsers lc) a d \<le> 0"
      using cacheOrder_trans [of lc a b d] trans by (simp add: sortCompare_ranked)
  qed (fact inS)
  then have "sorted_wrt (cacheOrder lc) (stableSort (compareUsers lc) ?us)"
  proof (rule sorted_wrt_mono_rel [rotated])
    fix a b assume "a \<in> set (stableSort (compareUsers lc) ?us)" "b \<in> set (stableSort (compareUsers lc) ?us)"
      "sortCompare (compareUsers lc) a b \<le> 0"
    then have "a \<in> ?S" "b \<in> ?S" and le: "sortCompare (compareUsers lc) a b \<le> 0"
      using inS by (auto simp only: set_stableSort)
    then show "cacheOrder lc a b"
      using sortCompare_ranked [of a b lc] by simp
  qed
  moreover have "filter (sameKeys lc x) (stableSort (compareUsers lc) ?us) = filter (sameKeys lc x) ?us" for x
  proof (rule stableSort_stable)
    fix a b assume "sameKeys lc x a" "sameKeys lc x b"
    then have r: "role a = role b"
      and xa: "lc (orElse (name x) []) (orElse (name a) []) = 0"
      and xb: "lc (orElse (name x) []) (orElse (name b) []) = 0"
      by (simp_all add: sameKeys_def)
    have "lc (orElse (name a) []) (orElse (name x) []) \<le> 0"
      using localeCompare_equal_sym [where lc = lc, OF sym xa] by simp
    then have "lc (orElse (name a) []) (orElse (name b) []) \<le> 0"
      using trans xb by fastforce
    then show "sortCompare (compareUsers lc) a b \<le> 0"
      by (simp add: sortCompare_same_role [OF r])
  qed
  ultimately show ?thesis
    using nl by (simp add: res mset_stableSort)
qed

lemma codeUnitCompare_sym: "(codeUnitCompare s t < 0) = (0 < codeUnitCompare t s)"
  by (auto simp add: codeUnitCompare_def)

lemma codeUnitCompare_trans:
  "codeUnitCompare s t \<le> 0 \<Longrightarrow> codeUnitCompare t r \<le> 0 \<Longrightarrow> codeUnitCompare s r \<le> 0"
  by (auto simp add: codeUnitCompare_def split: if_splits)

text \<open>
  An example: the snapshot Engineer Eve, Admin Ada, Manager Max, Engineer Bob can only
  leave the cache Ada, Max, Bob, Eve.
\<close>

lemma ranked_snapshot_example:
  "c' = \<lparr>records = [withId ''a1'' (exampleData ''Admin'' ''Ada''), withId ''m1'' (exampleData ''Manager'' ''Max''),
         withId ''e2'' (exampleData ''Engineer'' ''Bob''), withId ''e1'' (exampleData ''Engineer'' ''Eve'')],
        loading = False, error = None\<rparr>"
  if "onUsersSnapshot codeUnitCompare
        [(''e1'', exampleData ''Engineer'' ''Eve''), (''a1'', exampleData ''Admin'' ''Ada''),
         (''m1'', exampleData ''Manager'' ''Max''), (''e2'', exampleData ''Engineer'' ''Bob'')]
        initialCache c'"
proof -
  let ?docs = "[(''e1'', exampleData ''Engineer'' ''Eve''), (''a1'', exampleData ''Admin'' ''Ada''),
         (''m1'', exampleData ''Manager'' ''Max''), (''e2'', exampleData ''Engineer'' ''Bob'')]"
  let ?us = "map (\<lambda>(i, d). withId i d) ?docs"
  have "\<forall>u \<in> set ?us. roleOrder (role u) \<noteq> None"
    by (simp add: roleOrder_def exampleData_def withId_def)
  then have cons: "consistentComparator (compareUsers codeUnitCompare) ?us"
    by (intro compareUsers_consistent [where lc = codeUnitCompare, OF codeUnitCompare_sym codeUnitCompare_trans])
  have e: "stableSort (compareUsers codeUnitCompare) ?us
      = [withId ''a1'' (exampleData ''Admin'' ''Ada''), withId ''m1'' (exampleData ''Manager'' ''Max''),
         withId ''e2'' (exampleData ''Engineer'' ''Bob''), withId ''e1'' (exampleData ''Engineer'' ''Eve'')]"
    by (simp add: stableSort_def sortCompare_def compareUsers_def roleOrder_def
        codeUnitCompare_def orElse_def withId_def exampleData_def)
  from that have both: "arraySort (compareUsers codeUnitCompare) ?us (records c')
      \<and> c' = initialCache\<lparr>records := records c', loading := False\<rparr>"
    unfolding onUsersSnapshot_def Let_def .
  have r: "records c' = stableSort (compareUsers codeUnitCompare) ?us"
    using both [THEN conjunct1] cons by (simp only: arraySort_def if_True)
  show ?thesis
    by (subst both [THEN conjunct2]) (simp only: r e, simp add: initialCache_def)
qed

text \<open>
  C3 fails on the code. The snapshot Viewer Vic, Contractor Cy, Admin Ada holds a
  record whose role has no rank. The comparison function answers \<open>NaN\<close> for the
  Viewer against the Contractor and for the Contractor against the Admin, and 3 for the
  Viewer against the Admin, so it is not consistent on these records and the order of
  the cache is left to the engine. The cache that keeps the snapshot's order, with the
  Viewer (rank 3) before the Admin (rank 0), is a result of the callback; it is not in
  the order of the specification.
\<close>

theorem users_cache_unranked_role_failing_input:
  "compareUsers codeUnitCompare (withId ''v1'' (exampleData ''Viewer'' ''Vic''))
       (withId ''c1'' (exampleData ''Contractor'' ''Cy'')) = None
   \<and> compareUsers codeUnitCompare (withId ''c1'' (exampleData ''Contractor'' ''Cy''))
       (withId ''a1'' (exampleData ''Admin'' ''Ada'')) = None
   \<and> compareUsers codeUnitCompare (withId ''v1'' (exampleData ''Viewer'' ''Vic''))
       (withId ''a1'' (exampleData ''Admin'' ''Ada'')) = Some 3
   \<and> \<not> consistentComparator (compareUsers codeUnitCompare)
        [withId ''v1'' (exampleData ''Viewer'' ''Vic''), withId ''c1'' (exampleData ''Contractor'' ''Cy''),
         withId ''a1'' (exampleData ''Admin'' ''Ada'')]
   \<and> onUsersSnapshot codeUnitCompare
        [(''v1'', exampleData ''Viewer'' ''Vic''), (''c1'', exampleData ''Contractor'' ''Cy''),
         (''a1'', exampleData ''Admin'' ''Ada'')]
        initialCache
        \<lparr>records = [withId ''v1'' (exampleData ''Viewer'' ''Vic''),
                    withId ''c1'' (exampleData ''Contractor'' ''Cy''),
                    withId ''a1'' (exampleData ''Admin'' ''Ada'')],
         loading = False, error = None\<rparr>
   \<and> roleOrder (role (withId ''v1'' (exampleData ''Viewer'' ''Vic''))) = Some 3
   \<and> roleOrder (role (withId ''a1'' (exampleData ''Admin'' ''Ada''))) = Some 0
   \<and> \<not> cacheOrder codeUnitCompare (withId ''v1'' (exampleData ''Viewer'' ''Vic''))
          (withId ''a1'' (exampleData ''Admin'' ''Ada''))"
proof -
  let ?v = "withId ''v1'' (exampleData ''Viewer'' ''Vic'')"
  let ?c = "withId ''c1'' (exampleData ''Contractor'' ''Cy'')"
  let ?a = "withId ''a1'' (exampleData ''Admin'' ''Ada'')"
  have vc: "compareUsers codeUnitCompare ?v ?c = None"
    and ca: "compareUsers codeUnitCompare ?c ?a = None"
    and va: "compareUsers codeUnitCompare ?v ?a = Some 3"
    by (simp_all add: compareUsers_def roleOrder_def withId_def exampleData_def)
  have nc: "\<not> consistentComparator (compareUsers codeUnitCompare) [?v, ?c, ?a]"
  proof
    assume "consistentComparator (compareUsers codeUnitCompare) [?v, ?c, ?a]"
    then have "\<forall>a \<in> set [?v, ?c, ?a]. \<forall>b \<in> set [?v, ?c, ?a]. compareUsers codeUnitCompare a b \<noteq> None"
      unfolding consistentComparator_def by (rule conjunct1)
    then have "compareUsers codeUnitCompare ?v ?c \<noteq> None" by simp
    then show False using vc by simp
  qed
  have step: "onUsersSnapshot codeUnitCompare
        [(''v1'', exampleData ''Viewer'' ''Vic''), (''c1'', exampleData ''Contractor'' ''Cy''),
         (''a1'', exampleData ''Admin'' ''Ada'')]
        initialCache \<lparr>records = [?v, ?c, ?a], loading = False, error = None\<rparr>"
    using nc by (simp add: onUsersSnapshot_def arraySort_def initialCache_def)
  have r: "roleOrder (role ?v) = Some 3" "roleOrder (role ?a) = Some 0"
      "\<not> cacheOrder codeUnitCompare ?v ?a"
    by (simp_all add: cacheOrder_def roleOrder_def withId_def exampleData_def)
  show ?thesis using vc ca va nc step r by (simp only: simp_thms)
qed

theorem users_cache_unranked_role_failing_input_witness:
  "withId ''v1'' (exampleData ''Viewer'' ''Vic'')
     \<in> set [withId ''v1'' (exampleData ''Viewer'' ''Vic''), withId ''c1'' (exampleData ''Contractor'' ''Cy''),
            withId ''a1'' (exampleData ''Admin'' ''Ada'')]
   \<and> withId ''c1'' (exampleData ''Contractor'' ''Cy'')
     \<in> set [withId ''v1'' (exampleData ''Viewer'' ''Vic''), withId ''c1'' (exampleData ''Contractor'' ''Cy''),
            withId ''a1'' (exampleData ''Admin'' ''Ada'')]
   \<and> compareUsers codeUnitCompare (withId ''v1'' (exampleData ''Viewer'' ''Vic''))
       (withId ''c1'' (exampleData ''Contractor'' ''Cy'')) = None
   \<and> \<not> consistentComparator (compareUsers codeUnitCompare)
        [withId ''v1'' (exampleData ''Viewer'' ''Vic''), withId ''c1'' (exampleData ''Contractor'' ''Cy''),
         withId ''a1'' (exampleData ''Admin'' ''Ada'')]"
proof -
  note t = users_cache_unranked_role_failing_input
  note nan = t [THEN conjunct1]
  note inconsistent = t [THEN conjunct2, THEN conjunct2, THEN conjunct2, THEN conjunct1]
  show ?thesis using nan inconsistent by (simp only: list.set insert_iff simp_thms)
qed

end
